theory Spec2Isabelle
  imports Complex_Main "HOL-Library.Sublist" "HOL-Library.Word"
begin

section \<open>The forecast transform\<close>

text \<open>
  \<^verbatim>\<open>lib/types.ts\<close>: a forecast point is \<^verbatim>\<open>{month, price, type}\<close>. The chart components
  compare \<^verbatim>\<open>d.type\<close> with the literals \<^verbatim>\<open>'history'\<close> and \<^verbatim>\<open>'forecast'\<close>; the payload comes
  from \<^verbatim>\<open>JSON.parse\<close> and is not validated, so the tag is kept as the string it is at
  run time. No arithmetic is done on \<^verbatim>\<open>price\<close>; it is a rational here.
\<close>

record ForecastData =
  month :: string
  price :: rat
  type :: string

text \<open>The three series a chart component derives from its \<^verbatim>\<open>data\<close> prop.\<close>

record series =
  historyData :: "ForecastData list"
  forecastData :: "ForecastData list"
  connector :: "ForecastData list"

text \<open>
  \<^verbatim>\<open>PriceForecast\<close> of \<^verbatim>\<open>App.jsx\<close>:
  \<^verbatim>\<open>
  const historyData = data.filter(d => d.type === 'history');
  const forecastData = data.filter(d => d.type === 'forecast');
  const connector = historyData.length > 0
    ? [historyData[historyData.length - 1], ...forecastData] : forecastData;
  \<close>
\<close>

definition PriceForecast :: "ForecastData list \<Rightarrow> series" where
  "PriceForecast data =
     (let h = filter (\<lambda>d. type d = ''history'') data;
          f = filter (\<lambda>d. type d = ''forecast'') data;
          c = (if length h > 0 then (h ! (length h - 1)) # f else f)
      in \<lparr>historyData = h, forecastData = f, connector = c\<rparr>)"

text \<open>
  \<^verbatim>\<open>StockChart\<close> (the typed chart component): it returns a placeholder card, and
  computes no series, when \<^verbatim>\<open>!data || data.length === 0\<close>; \<open>None\<close> as input is a null
  or undefined prop, \<open>None\<close> as output is the placeholder. Otherwise
  \<^verbatim>\<open>
  const connectorData = [];
  if (historyData.length > 0) {
    connectorData.push(historyData[historyData.length - 1]);
    if (forecastData.length > 0) { connectorData.push(forecastData[0]); }
  }
  \<close>
\<close>

definition StockChart :: "ForecastData list option \<Rightarrow> series option" where
  "StockChart data_prop =
     (case data_prop of
        None \<Rightarrow> None
      | Some data \<Rightarrow>
          if length data = 0 then None
          else
            (let h = filter (\<lambda>d. type d = ''history'') data;
                 f = filter (\<lambda>d. type d = ''forecast'') data;
                 c0 = [];
                 c = (if length h > 0
                      then (let c1 = c0 @ [h ! (length h - 1)]
                            in if length f > 0 then c1 @ [f ! 0] else c1)
                      else c0)
             in Some \<lparr>historyData = h, forecastData = f, connector = c\<rparr>))"

text \<open>The \<^verbatim>\<open>forecastData\<close> of \<^verbatim>\<open>mockData\<close> in \<^verbatim>\<open>App.jsx\<close>.\<close>

definition pt :: "string \<Rightarrow> rat \<Rightarrow> string \<Rightarrow> ForecastData" where
  "pt m p t = \<lparr>month = m, price = p, type = t\<rparr>"

definition mockForecast :: "ForecastData list" where
  "mockForecast =
     [pt ''Jan'' 150 ''history'', pt ''Feb'' 155 ''history'', pt ''Mar'' 160 ''history'',
      pt ''Apr'' 165 ''history'', pt ''May'' 170 ''history'', pt ''Jun'' 175 ''history'',
      pt ''Jul'' 180 ''history'', pt ''Aug'' 185 ''history'', pt ''Sep'' 190 ''forecast'',
      pt ''Oct'' 195 ''forecast'', pt ''Nov'' 200 ''forecast'', pt ''Dec'' 205 ''forecast'']"

text \<open>
  The ordering invariant of the data model: one run of \<^verbatim>\<open>history\<close> points followed by
  one run of \<^verbatim>\<open>forecast\<close> points.
\<close>

fun history_then_forecast :: "ForecastData list \<Rightarrow> bool" where
  "history_then_forecast [] = True"
| "history_then_forecast (d # ds) =
     (if type d = ''history'' then history_then_forecast ds
      else type d = ''forecast'' \<and> list_all (\<lambda>e. type e = ''forecast'') ds)"


section \<open>Strings\<close>

text \<open>
  A JavaScript string is a sequence of 16-bit code units. \<open>js\<close> writes an ASCII literal of
  the source as such a sequence, one code unit for each character.
\<close>

type_synonym jsstring = "16 word list"

definition unit :: "char \<Rightarrow> 16 word" where
  "unit c = of_char c"

definition js :: "string \<Rightarrow> jsstring" where
  "js s = map unit s"

text \<open>
  White space as \<^verbatim>\<open>trim\<close> and \<^verbatim>\<open>parseInt\<close> strip it: the language's white space and line
  terminators, which are tab, line feed, vertical tab, form feed, carriage return, space,
  U+00A0, U+1680, U+2000 to U+200A, U+2028, U+2029, U+202F, U+205F, U+3000 and U+FEFF.
\<close>

definition isWhiteSpace :: "16 word \<Rightarrow> bool" where
  "isWhiteSpace c =
     (let n = unat c in
      (9 \<le> n \<and> n \<le> 13) \<or> n = 32 \<or> n = 160 \<or> n = 5760 \<or> (8192 \<le> n \<and> n \<le> 8202) \<or>
      n = 8232 \<or> n = 8233 \<or> n = 8239 \<or> n = 8287 \<or> n = 12288 \<or> n = 65279)"

definition trim :: "jsstring \<Rightarrow> jsstring" where
  "trim s = rev (dropWhile isWhiteSpace (rev (dropWhile isWhiteSpace s)))"

text \<open>\<^verbatim>\<open>s.split(',')\<close>: the segments between separators; never an empty array.\<close>

fun split :: "'a \<Rightarrow> 'a list \<Rightarrow> 'a list list" where
  "split sep [] = [[]]"
| "split sep (c # cs) =
     (if c = sep then [] # split sep cs
      else (case split sep cs of [] \<Rightarrow> [[c]] | w # ws \<Rightarrow> (c # w) # ws))"

text \<open>\<^verbatim>\<open>xs.join(sep)\<close> on an array of strings.\<close>

fun join :: "'a list \<Rightarrow> 'a list list \<Rightarrow> 'a list" where
  "join sep [] = []"
| "join sep [x] = x"
| "join sep (x # y # ys) = x @ sep @ join sep (y # ys)"

text \<open>
  A JavaScript number: \<^verbatim>\<open>NaN\<close>, the two infinities, negative zero, or a finite value (a
  rational; \<open>Finite 0\<close> is positive zero).
\<close>

datatype number = NaN | Finite rat | NegZero | PosInfinity | NegInfinity




section \<open>JavaScript values\<close>

text \<open>
  The values the store holds and the transport delivers: what \<^verbatim>\<open>JSON.parse\<close> can
  return, the form's field values, and \<^verbatim>\<open>undefined\<close> for a property that is not there.
  An object is the list of its own properties, each key once.
\<close>

datatype jsval =
    Undefined | Null | Bool bool | Number number | Str jsstring
  | Arr "jsval list" | Obj "(jsstring \<times> jsval) list"

text \<open>What \<^verbatim>\<open>if (v)\<close>, \<^verbatim>\<open>!v\<close> and \<^verbatim>\<open>v || w\<close> test.\<close>

fun truthy :: "jsval \<Rightarrow> bool" where
  "truthy Undefined = False"
| "truthy Null = False"
| "truthy (Bool b) = b"
| "truthy (Number NaN) = False"
| "truthy (Number (Finite q)) = (q \<noteq> 0)"
| "truthy (Number NegZero) = False"
| "truthy (Number PosInfinity) = True"
| "truthy (Number NegInfinity) = True"
| "truthy (Str s) = (s \<noteq> [])"
| "truthy (Arr xs) = True"
| "truthy (Obj kvs) = True"

definition nullish :: "jsval \<Rightarrow> bool" where
  "nullish v = (v = Undefined \<or> v = Null)"

text \<open>
  \<^verbatim>\<open>v.p\<close> for a value that is not null or undefined (reading a property of those throws
  a \<^verbatim>\<open>TypeError\<close>, which the callers below test for first) and for the property names
  the store reads, \<^verbatim>\<open>error\<close>, \<^verbatim>\<open>analysis\<close> and \<^verbatim>\<open>detail\<close>, which no prototype defines.
\<close>

definition property :: "jsval \<Rightarrow> jsstring \<Rightarrow> jsval" where
  "property v p =
     (case v of
        Obj kvs \<Rightarrow> (case map_of kvs p of Some x \<Rightarrow> x | None \<Rightarrow> Undefined)
      | _ \<Rightarrow> Undefined)"

text \<open>
  What the code takes from its environment and from the JavaScript engine, as parameters:
  \<^item> the build-time variable \<^verbatim>\<open>VITE_API_URL\<close>;
  \<^item> \<^verbatim>\<open>JSON.parse\<close> (\<open>Inl\<close> carries the message of the \<^verbatim>\<open>SyntaxError\<close> it throws);
  \<^item> \<^verbatim>\<open>String.prototype.toUpperCase\<close>, the Unicode case mapping;
  \<^item> the number an integer becomes (the nearest double or an infinity; an engine may
    approximate a decimal numeral beyond its twentieth significant digit);
  \<^item> the text a finite number prints as;
  \<^item> the messages of the \<^verbatim>\<open>TypeError\<close>s the engine can raise here: reading a property of
    null or undefined, calling something that is not a function, converting an object
    that has no usable \<^verbatim>\<open>toString\<close> to a string.
\<close>

record engine =
  VITE_API_URL :: "jsstring option"
  JSON_parse :: "jsstring \<Rightarrow> jsstring + jsval"
  toUpperCase :: "jsstring \<Rightarrow> jsstring"
  Number_of_integer :: "int \<Rightarrow> number"
  Number_toString :: "rat \<Rightarrow> jsstring"
  cannotRead :: "jsval \<Rightarrow> jsstring \<Rightarrow> jsstring"
  notAFunction :: "jsstring \<Rightarrow> jsstring"
  cannotConvert :: jsstring


text \<open>
  String conversion, as \<^verbatim>\<open>new Error(v)\<close> and a template literal apply it; \<open>None\<close> when
  it throws a \<^verbatim>\<open>TypeError\<close>. An array prints its elements separated by commas, null and
  undefined elements as nothing. An object made by \<^verbatim>\<open>JSON.parse\<close> prints as
  \<^verbatim>\<open>[object Object]\<close> through the \<^verbatim>\<open>toString\<close> it inherits; when it has a \<^verbatim>\<open>toString\<close>
  property of its own, that property is no function, neither \<^verbatim>\<open>valueOf\<close> yields a
  primitive, and the conversion throws.
\<close>

fun ToString :: "engine \<Rightarrow> jsval \<Rightarrow> jsstring option" where
  "ToString E Undefined = Some (js ''undefined'')"
| "ToString E Null = Some (js ''null'')"
| "ToString E (Bool b) = Some (if b then js ''true'' else js ''false'')"
| "ToString E (Number NaN) = Some (js ''NaN'')"
| "ToString E (Number (Finite q)) = Some (Number_toString E q)"
| "ToString E (Number NegZero) = Some (js ''0'')"
| "ToString E (Number PosInfinity) = Some (js ''Infinity'')"
| "ToString E (Number NegInfinity) = Some (js ''-Infinity'')"
| "ToString E (Str s) = Some s"
| "ToString E (Arr xs) =
     map_option (join (js '',''))
       (those (map (\<lambda>x. if x = Undefined \<or> x = Null then Some [] else ToString E x) xs))"
| "ToString E (Obj kvs) =
     (if map_of kvs (js ''toString'') = None then Some (js ''[object Object]'') else None)"

text \<open>\<^verbatim>\<open>xs.join(sep)\<close> on an array of any values; \<open>None\<close> when an element does not convert.\<close>

definition Array_join :: "engine \<Rightarrow> jsstring \<Rightarrow> jsval list \<Rightarrow> jsstring option" where
  "Array_join E sep xs =
     map_option (join sep)
       (those (map (\<lambda>x. if x = Undefined \<or> x = Null then Some [] else ToString E x) xs))"

text \<open>\<^verbatim>\<open>const API_BASE_URL = import.meta.env.VITE_API_URL || 'http://127.0.0.1:8000'\<close>\<close>

definition API_BASE_URL :: "engine \<Rightarrow> jsstring" where
  "API_BASE_URL E =
     (case VITE_API_URL E of
        Some u \<Rightarrow> if u = [] then js ''http://127.0.0.1:8000'' else u
      | None \<Rightarrow> js ''http://127.0.0.1:8000'')"


section \<open>The analysis store\<close>

text \<open>
  The state of \<^verbatim>\<open>useAnalysisStore\<close>. \<^verbatim>\<open>userInput\<close> is an object updated under a computed
  key, so it is a map from property names; \<^verbatim>\<open>apiError\<close> is \<^verbatim>\<open>null\<close> or a string.
\<close>

record store =
  userInput :: "jsstring \<rightharpoonup> jsval"
  isLoading :: bool
  apiError :: "jsstring option"
  analysisResults :: jsval

definition point_json :: "ForecastData \<Rightarrow> jsval" where
  "point_json d =
     Obj [(js ''month'', Str (js (month d))), (js ''price'', Number (Finite (price d))),
          (js ''type'', Str (js (type d)))]"

definition mockData :: jsval where
  "mockData =
     Obj [(js ''analysis'',
             Str (js ''This is a mock analysis. Fill out the form and click 'Analyze' to get a live response.'')),
          (js ''keyNews'', Str (js ''Mock news summary. The backend will provide real data.'')),
          (js ''forecastData'', Arr (map point_json mockForecast)),
          (js ''investmentAdvice'',
             Obj [(js ''entryPoint'', Number (Finite 175.5)),
                  (js ''expectedReturn'', Number (Finite 18)),
                  (js ''stopLoss'', Number (Finite 168))]),
          (js ''recommendedStocks'',
             Arr [Obj [(js ''ticker'', Str (js ''MSFT'')), (js ''name'', Str (js ''Microsoft'')),
                       (js ''reason'', Str (js ''Matches your long-term, stable tech preference.''))],
                  Obj [(js ''ticker'', Str (js ''GOOGL'')), (js ''name'', Str (js ''Google'')),
                       (js ''reason'', Str (js ''Aligns with your interest in high-growth tech.''))]])]"

text \<open>The initial state of the store.\<close>

definition initial_store :: store where
  "initial_store =
     \<lparr>userInput =
        [js ''ticker'' \<mapsto> Str (js ''AAPL''),
         js ''financialCondition'' \<mapsto> Arr [Str (js ''Stable Income'')],
         js ''expectedReturn'' \<mapsto> Number (Finite 15),
         js ''riskTolerance'' \<mapsto> Str (js ''Medium''),
         js ''tradingPreferences'' \<mapsto>
           Str (js ''I am a long-term holder, I prefer tech and biotech.'')],
      isLoading = False,
      apiError = None,
      analysisResults = mockData\<rparr>"

text \<open>
  \<^verbatim>\<open>setInput: (key, value) => set((state) => ({ userInput: { ...state.userInput, [key]: value } }))\<close>
\<close>

definition setInput :: "jsstring \<Rightarrow> jsval \<Rightarrow> store \<Rightarrow> store" where
  "setInput key v s = s\<lparr>userInput := (userInput s)(key \<mapsto> v)\<rparr>"

subsection \<open>The form handlers\<close>

text \<open>
  The \<^verbatim>\<open>onChange\<close> handlers of \<^verbatim>\<open>ProfileInputForm\<close>; the argument is \<^verbatim>\<open>e.target.value\<close>.
\<close>

definition onChange_ticker :: "engine \<Rightarrow> jsstring \<Rightarrow> store \<Rightarrow> store" where
  "onChange_ticker E v s = setInput (js ''ticker'') (Str (toUpperCase E v)) s"

definition onChange_riskTolerance :: "jsstring \<Rightarrow> store \<Rightarrow> store" where
  "onChange_riskTolerance v s = setInput (js ''riskTolerance'') (Str v) s"


definition onChange_financialCondition :: "jsstring \<Rightarrow> store \<Rightarrow> store" where
  "onChange_financialCondition v s =
     setInput (js ''financialCondition'') (Arr (map Str (map trim (split (unit CHR '','') v)))) s"

definition onChange_tradingPreferences :: "jsstring \<Rightarrow> store \<Rightarrow> store" where
  "onChange_tradingPreferences v s = setInput (js ''tradingPreferences'') (Str v) s"

text \<open>
  The text the financial-condition input shows:
  \<^verbatim>\<open>userInput.financialCondition.join(', ')\<close>; \<open>None\<close> when the call throws (the field
  holds no array, or an element does not convert to a string).
\<close>

definition financialCondition_value :: "engine \<Rightarrow> (jsstring \<rightharpoonup> jsval) \<Rightarrow> jsstring option" where
  "financialCondition_value E input =
     (case input (js ''financialCondition'') of
        Some (Arr xs) \<Rightarrow> Array_join E (js '', '') xs
      | _ \<Rightarrow> None)"

text \<open>
  \<^verbatim>\<open>SearchForm\<close> (the typed form): its state is the form state itself,
  \<^verbatim>\<open>setFormState((prev) => ({ ...prev, [key]: value }))\<close>. Its handlers are those above
  except for the expected return, \<^verbatim>\<open>parseInt(e.target.value, 10) || 0\<close>.
\<close>

definition handleChange :: "jsstring \<Rightarrow> jsval \<Rightarrow> (jsstring \<rightharpoonup> jsval) \<Rightarrow> (jsstring \<rightharpoonup> jsval)" where
  "handleChange key v formState = formState(key \<mapsto> v)"


definition SearchForm_onChange_financialCondition ::
  "jsstring \<Rightarrow> (jsstring \<rightharpoonup> jsval) \<Rightarrow> (jsstring \<rightharpoonup> jsval)" where
  "SearchForm_onChange_financialCondition v formState =
     handleChange (js ''financialCondition'')
       (Arr (map Str (map trim (split (unit CHR '','') v)))) formState"

text \<open>
  The condition under which an element list survives the display and edit round trip:
  no comma inside an element, no white space at either end of it.
\<close>

definition plain_tag :: "jsstring \<Rightarrow> bool" where
  "plain_tag x =
     (unit CHR '','' \<notin> set x \<and>
      (case x of [] \<Rightarrow> True | c # cs \<Rightarrow> \<not> isWhiteSpace c \<and> \<not> isWhiteSpace (last x)))"

subsection \<open>Submitting\<close>

text \<open>
  What a \<^verbatim>\<open>catch\<close> can see of a thrown value: its \<^verbatim>\<open>message\<close>, the \<^verbatim>\<open>data\<close> of its
  \<^verbatim>\<open>response\<close> when it has one, and whether it has a \<^verbatim>\<open>request\<close>. An error the try block
  throws itself has neither; an axios rejection has a response when the server answered
  with a status outside 2xx, and only a request when no answer came.
\<close>

record js_error =
  message :: jsstring
  response :: "jsval option"
  request :: bool

definition Error :: "jsstring \<Rightarrow> js_error" where
  "Error m = \<lparr>message = m, response = None, request = False\<rparr>"

text \<open>How \<^verbatim>\<open>axios.post\<close> settles: with the \<^verbatim>\<open>data\<close> of a 2xx response, or rejected.\<close>

datatype axios_result = Resolved jsval | Rejected js_error

text \<open>
  The body of the \<^verbatim>\<open>try\<close> after the \<^verbatim>\<open>await\<close>: \<open>Inr\<close> is \<^verbatim>\<open>aiData\<close>, \<open>Inl\<close> is what is
  thrown, by a \<^verbatim>\<open>throw\<close> or by the engine (reading a property of a null body, converting
  the \<^verbatim>\<open>error\<close> field to a string, calling \<^verbatim>\<open>startsWith\<close> on what is no string,
  \<^verbatim>\<open>JSON.parse\<close>).
  \<^verbatim>\<open>
  if (response.data.error) { throw new Error(response.data.error); }
  const aiResponseJsonString = response.data.analysis;
  if (!aiResponseJsonString || aiResponseJsonString.startsWith("Error:")) {
    throw new Error(aiResponseJsonString || "Empty response from AI");
  }
  const aiData = JSON.parse(aiResponseJsonString);
  \<close>
\<close>

definition try_block :: "engine \<Rightarrow> axios_result \<Rightarrow> js_error + jsval" where
  "try_block E result =
     (case result of
        Rejected e \<Rightarrow> Inl e
      | Resolved data \<Rightarrow>
          if nullish data then Inl (Error (cannotRead E data (js ''error'')))
          else if truthy (property data (js ''error''))
          then (case ToString E (property data (js ''error'')) of
                  Some m \<Rightarrow> Inl (Error m)
                | None \<Rightarrow> Inl (Error (cannotConvert E)))
          else
            (let aiResponseJsonString = property data (js ''analysis'') in
             if \<not> truthy aiResponseJsonString then Inl (Error (js ''Empty response from AI''))
             else
               (case aiResponseJsonString of
                  Str s \<Rightarrow>
                    if prefix (js ''Error:'') s then Inl (Error s)
                    else (case JSON_parse E s of
                            Inl m \<Rightarrow> Inl (Error m)
                          | Inr aiData \<Rightarrow> Inr aiData)
                | _ \<Rightarrow> Inl (Error (notAFunction E (js ''aiResponseJsonString.startsWith''))))))"

text \<open>
  The \<^verbatim>\<open>catch\<close> block, up to its \<^verbatim>\<open>set\<close>: the message it builds; \<open>None\<close> when the block
  itself throws, so that no \<^verbatim>\<open>set\<close> is reached: reading \<^verbatim>\<open>error.response.data.detail\<close>
  of a null body, or converting a detail to a string in the template literal.
  \<^verbatim>\<open>
  let errorMessage = "Failed to fetch analysis.";
  if (error.response) {
    errorMessage = `Server Error: ${error.response.data.detail || error.message}`;
  } else if (error.request) {
    errorMessage = `Connection Error: Is the Python server running at ${API_BASE_URL}?`;
  } else { errorMessage = error.message; }
  \<close>
\<close>

definition catch_block :: "engine \<Rightarrow> js_error \<Rightarrow> jsstring option" where
  "catch_block E error =
     (let errorMessage = js ''Failed to fetch analysis.'' in
      case response error of
        Some data \<Rightarrow>
          if nullish data then None
          else if truthy (property data (js ''detail''))
          then map_option (\<lambda>t. js ''Server Error: '' @ t) (ToString E (property data (js ''detail'')))
          else Some (js ''Server Error: '' @ message error)
      | None \<Rightarrow>
          if request error
          then Some (js ''Connection Error: Is the Python server running at '' @ API_BASE_URL E
                     @ js ''?'')
          else Some (message error))"

text \<open>
  How one call settles: the single \<^verbatim>\<open>set\<close> it ends with, or none. \<^verbatim>\<open>set\<close> merges the
  given fields into the state and leaves the others.
\<close>

datatype outcome = Succeeded jsval | Failed jsstring | Unhandled

definition settle :: "engine \<Rightarrow> axios_result \<Rightarrow> outcome" where
  "settle E result =
     (case try_block E result of
        Inr aiData \<Rightarrow> Succeeded aiData
      | Inl error \<Rightarrow> (case catch_block E error of Some m \<Rightarrow> Failed m | None \<Rightarrow> Unhandled))"

fun commit :: "outcome \<Rightarrow> store \<Rightarrow> store" where
  "commit (Succeeded aiData) s = s\<lparr>analysisResults := aiData, isLoading := False\<rparr>"
| "commit (Failed errorMessage) s = s\<lparr>isLoading := False, apiError := Some errorMessage\<rparr>"
| "commit Unhandled s = s"

text \<open>
  \<^verbatim>\<open>fetchAnalysis\<close> in its two halves, before and after the \<^verbatim>\<open>await\<close>, and as one call
  when nothing happens in between; \<open>post\<close> is \<^verbatim>\<open>axios.post\<close>, given the address and the
  body.
\<close>

definition fetchAnalysis_begin :: "store \<Rightarrow> store" where
  "fetchAnalysis_begin s = s\<lparr>isLoading := True, apiError := None\<rparr>"

definition fetchAnalysis_resolve :: "engine \<Rightarrow> axios_result \<Rightarrow> store \<Rightarrow> store" where
  "fetchAnalysis_resolve E result s = commit (settle E result) s"

definition fetchAnalysis ::
  "engine \<Rightarrow> (jsstring \<Rightarrow> (jsstring \<rightharpoonup> jsval) \<Rightarrow> axios_result) \<Rightarrow> store \<Rightarrow> store" where
  "fetchAnalysis E post s =
     fetchAnalysis_resolve E (post (API_BASE_URL E @ js ''/api/analyze'') (userInput s))
       (fetchAnalysis_begin s)"

text \<open>
  The events of a session, in the order the event loop runs them: an edit, the start of a
  submission, and the settling of a request in flight. Event lists are not restricted to
  those in which every settling follows its submission, so what holds of all of them holds
  of every state the store can reach.
\<close>

datatype event = SetInput jsstring jsval | Submit | Settle axios_result

fun step :: "engine \<Rightarrow> store \<Rightarrow> event \<Rightarrow> store" where
  "step E s (SetInput key v) = setInput key v s"
| "step E s Submit = fetchAnalysis_begin s"
| "step E s (Settle result) = fetchAnalysis_resolve E result s"

definition run :: "engine \<Rightarrow> store \<Rightarrow> event list \<Rightarrow> store" where
  "run E s evs = foldl (step E) s evs"

text \<open>
  What the function \<^verbatim>\<open>DashboardDisplay\<close> does: it returns the spinner \<^verbatim>\<open>if (isLoading)\<close>,
  the error panel \<^verbatim>\<open>if (apiError)\<close>, and the dashboard otherwise, for which it reads
  \<^verbatim>\<open>analysisResults.ticker\<close> and so throws when the stored result is null or undefined.
  The store has no status field; this is where a status shows.
\<close>

datatype view = Spinner | ErrorPanel jsstring | Dashboard jsval | Throws

definition DashboardDisplay :: "store \<Rightarrow> view" where
  "DashboardDisplay s =
     (let dashboard = (if nullish (analysisResults s) then Throws else Dashboard (analysisResults s))
      in if isLoading s then Spinner
         else (case apiError s of
                 Some m \<Rightarrow> if m = [] then dashboard else ErrorPanel m
               | None \<Rightarrow> dashboard))"

subsection \<open>The result shape\<close>

text \<open>The interfaces of \<^verbatim>\<open>lib/types.ts\<close>, as a check on a parsed value.\<close>

definition is_string :: "jsval \<Rightarrow> bool" where
  "is_string v = (case v of Str _ \<Rightarrow> True | _ \<Rightarrow> False)"

definition is_number :: "jsval \<Rightarrow> bool" where
  "is_number v = (case v of Number _ \<Rightarrow> True | _ \<Rightarrow> False)"

definition valid_ForecastData :: "jsval \<Rightarrow> bool" where
  "valid_ForecastData v =
     (is_string (property v (js ''month'')) \<and> is_number (property v (js ''price'')) \<and>
      (property v (js ''type'') = Str (js ''history'') \<or>
       property v (js ''type'') = Str (js ''forecast'')))"

definition valid_InvestmentAdviceData :: "jsval \<Rightarrow> bool" where
  "valid_InvestmentAdviceData v =
     (is_number (property v (js ''entryPoint'')) \<and> is_number (property v (js ''expectedReturn'')) \<and>
      is_number (property v (js ''stopLoss'')))"

definition valid_RecommendedStockData :: "jsval \<Rightarrow> bool" where
  "valid_RecommendedStockData v =
     (is_string (property v (js ''ticker'')) \<and>
      (property v (js ''name'') = Undefined \<or> is_string (property v (js ''name''))) \<and>
      is_string (property v (js ''reason'')))"

definition valid_AnalysisResult :: "jsval \<Rightarrow> bool" where
  "valid_AnalysisResult v =
     (is_string (property v (js ''analysis'')) \<and> is_string (property v (js ''keyNews'')) \<and>
      (case property v (js ''forecastData'') of
         Arr xs \<Rightarrow> list_all valid_ForecastData xs
       | _ \<Rightarrow> False) \<and>
      valid_InvestmentAdviceData (property v (js ''investmentAdvice'')) \<and>
      (case property v (js ''recommendedStocks'') of
         Arr xs \<Rightarrow> list_all valid_RecommendedStockData xs
       | _ \<Rightarrow> False))"

subsection \<open>The outcome of a submission, by the response\<close>

text \<open>
  The responses a submission succeeds on: a 2xx response whose \<^verbatim>\<open>error\<close> field is absent
  or falsy and whose \<^verbatim>\<open>analysis\<close> field is a non-empty string that does not start with
  \<^verbatim>\<open>Error:\<close> and that \<^verbatim>\<open>JSON.parse\<close> accepts; and the value stored then.
\<close>

definition accepted :: "engine \<Rightarrow> axios_result \<Rightarrow> bool" where
  "accepted E result =
     (case result of
        Rejected e \<Rightarrow> False
      | Resolved data \<Rightarrow>
          \<not> truthy (property data (js ''error'')) \<and>
          (case property data (js ''analysis'') of
             Str s \<Rightarrow> s \<noteq> [] \<and> \<not> prefix (js ''Error:'') s \<and>
                      (case JSON_parse E s of Inr v \<Rightarrow> True | Inl m \<Rightarrow> False)
           | _ \<Rightarrow> False))"

definition parsed_payload :: "engine \<Rightarrow> axios_result \<Rightarrow> jsval" where
  "parsed_payload E result =
     (case result of
        Resolved data \<Rightarrow>
          (case property data (js ''analysis'') of
             Str s \<Rightarrow> (case JSON_parse E s of Inr v \<Rightarrow> v | Inl m \<Rightarrow> Undefined)
           | _ \<Rightarrow> Undefined)
      | Rejected e \<Rightarrow> Undefined)"

text \<open>
  The rejections on which the \<^verbatim>\<open>catch\<close> block itself throws: those that carry a response
  whose body is null or undefined, or whose \<^verbatim>\<open>detail\<close> is truthy and does not convert to
  a string.
\<close>

definition catch_throws :: "engine \<Rightarrow> axios_result \<Rightarrow> bool" where
  "catch_throws E result =
     (case result of
        Rejected e \<Rightarrow>
          (case response e of
             Some data \<Rightarrow>
               nullish data \<or>
               (truthy (property data (js ''detail'')) \<and>
                ToString E (property data (js ''detail'')) = None)
           | None \<Rightarrow> False)
      | Resolved data \<Rightarrow> False)"

text \<open>The message of what the \<^verbatim>\<open>try\<close> block throws on a 2xx response it does not accept.\<close>

definition thrown_message :: "engine \<Rightarrow> jsval \<Rightarrow> jsstring" where
  "thrown_message E data =
     (if nullish data then cannotRead E data (js ''error'')
      else if truthy (property data (js ''error''))
      then (case ToString E (property data (js ''error'')) of
              Some m \<Rightarrow> m
            | None \<Rightarrow> cannotConvert E)
      else if \<not> truthy (property data (js ''analysis'')) then js ''Empty response from AI''
      else (case property data (js ''analysis'') of
              Str s \<Rightarrow> if prefix (js ''Error:'') s then s
                       else (case JSON_parse E s of Inl m \<Rightarrow> m | Inr v \<Rightarrow> [])
            | _ \<Rightarrow> notAFunction E (js ''aiResponseJsonString.startsWith'')))"

text \<open>The most recent successfully parsed payload among the events, \<open>d\<close> if there is none.\<close>

fun latest_result :: "engine \<Rightarrow> jsval \<Rightarrow> event list \<Rightarrow> jsval" where
  "latest_result E d [] = d"
| "latest_result E d (SetInput key v # evs) = latest_result E d evs"
| "latest_result E d (Submit # evs) = latest_result E d evs"
| "latest_result E d (Settle result # evs) =
     latest_result E (if accepted E result then parsed_payload E result else d) evs"

subsection \<open>A concrete engine and transports, for evaluating examples\<close>

text \<open>
  \<^verbatim>\<open>JSON.parse\<close> restricted to a few texts: on the texts listed it returns what
  \<^verbatim>\<open>JSON.parse\<close> returns; every other text is reported as a syntax error, which is what
  \<^verbatim>\<open>JSON.parse\<close> does on the ill-formed ones among them. The examples below parse the
  listed texts only.
\<close>

definition JSON_parse_fragment :: "jsstring \<Rightarrow> jsstring + jsval" where
  "JSON_parse_fragment s =
     (case map_of [(js ''null'', Null), (js ''true'', Bool True), (js ''false'', Bool False),
                   (js ''{}'', Obj []), (js ''[]'', Arr []), (js ''0'', Number (Finite 0))] s of
        Some v \<Rightarrow> Inr v
      | None \<Rightarrow> Inl (js ''Unexpected end of JSON input''))"

text \<open>
  The case mapping on the code units below 256 (the letters a to z, the Latin-1 letters,
  the sharp s, the micro sign and the y with diaeresis); other code units are left as they
  are, which is not what the engine does with all of them. The examples below map ASCII
  only.
\<close>

definition upper_units :: "16 word \<Rightarrow> jsstring" where
  "upper_units c =
     (let n = unat c in
      if 97 \<le> n \<and> n \<le> 122 then [c - 32]
      else if n = 223 then js ''SS''
      else if n = 181 then [924]
      else if n = 255 then [376]
      else if 224 \<le> n \<and> n \<le> 254 \<and> n \<noteq> 247 then [c - 32]
      else [c])"

definition upper_fragment :: "jsstring \<Rightarrow> jsstring" where
  "upper_fragment s = concat (map upper_units s)"

text \<open>
  The double nearest to an integer, ties to the even significand, or an infinity beyond
  the largest double: \<open>exponent a\<close> is how many low bits of \<open>a\<close> do not fit 53 bits.
\<close>

function exponent :: "nat \<Rightarrow> nat" where
  "exponent a = (if a < 2 ^ 53 then 0 else Suc (exponent (a div 2)))"
  by pat_completeness auto
termination
  by (relation "measure id") auto

declare exponent.simps [simp del]

definition nearest_double :: "int \<Rightarrow> number" where
  "nearest_double n =
     (let a = nat \<bar>n\<bar>;
          k = exponent a;
          q = a div 2 ^ k;
          r = a mod 2 ^ k;
          q' = (if 2 ^ k < 2 * r \<or> (2 * r = 2 ^ k \<and> odd q) then q + 1 else q);
          m = q' * 2 ^ k
      in if 2 ^ 1024 \<le> m then (if n < 0 then NegInfinity else PosInfinity)
         else Finite (of_int (if n < 0 then - int m else int m)))"

text \<open>Decimal notation for numbers of ordinary magnitude.\<close>

fun showNat :: "nat \<Rightarrow> nat \<Rightarrow> string" where
  "showNat 0 n = []"
| "showNat (Suc fuel) n =
     (if n < 10 then [char_of (48 + n)]
      else showNat fuel (n div 10) @ [char_of (48 + n mod 10)])"

fun fracDigits :: "nat \<Rightarrow> rat \<Rightarrow> string" where
  "fracDigits 0 q = []"
| "fracDigits (Suc k) q =
     (if q = 0 then []
      else char_of (48 + nat \<lfloor>q * 10\<rfloor>) # fracDigits k (q * 10 - of_int \<lfloor>q * 10\<rfloor>))"

definition showRat :: "rat \<Rightarrow> string" where
  "showRat q =
     (if q < 0 then ''-'' else [])
     @ showNat (Suc (nat \<lfloor>\<bar>q\<bar>\<rfloor>)) (nat \<lfloor>\<bar>q\<bar>\<rfloor>)
     @ (if \<bar>q\<bar> = of_int \<lfloor>\<bar>q\<bar>\<rfloor> then []
        else ''.'' @ fracDigits 17 (\<bar>q\<bar> - of_int \<lfloor>\<bar>q\<bar>\<rfloor>))"

definition sample_engine :: engine where
  "sample_engine =
     \<lparr>VITE_API_URL = None,
      JSON_parse = JSON_parse_fragment,
      toUpperCase = upper_fragment,
      Number_of_integer = nearest_double,
      Number_toString = (\<lambda>q. js (showRat q)),
      cannotRead = (\<lambda>v p. js ''Cannot read properties of ''
                            @ (if v = Null then js ''null'' else js ''undefined'')
                            @ js '' (reading '' @ p @ js '')''),
      notAFunction = (\<lambda>f. f @ js '' is not a function''),
      cannotConvert = js ''Cannot convert object to primitive value''\<rparr>"

text \<open>Transports: a server that answers 2xx with a body, and a server that is not running.\<close>

definition replies :: "jsval \<Rightarrow> jsstring \<Rightarrow> (jsstring \<rightharpoonup> jsval) \<Rightarrow> axios_result" where
  "replies data url body = Resolved data"

definition network_error :: js_error where
  "network_error = \<lparr>message = js ''Network Error'', response = None, request = True\<rparr>"

definition offline :: "jsstring \<Rightarrow> (jsstring \<rightharpoonup> jsval) \<Rightarrow> axios_result" where
  "offline url body = Rejected network_error"

text \<open>
  Rejections: a server that answers with status 500 and a detail; one that answers with
  status 500 and a detail that does not convert to a string; and a request that could not
  be set up (neither response nor request).
\<close>

definition http_500 :: js_error where
  "http_500 =
     \<lparr>message = js ''Request failed with status code 500'',
      response = Some (Obj [(js ''detail'', Str (js ''Analysis failed''))]),
      request = True\<rparr>"

definition http_500_odd_detail :: js_error where
  "http_500_odd_detail =
     \<lparr>message = js ''Request failed with status code 500'',
      response = Some (Obj [(js ''detail'', Obj [(js ''toString'', Number (Finite 1))])]),
      request = True\<rparr>"

definition setup_error :: js_error where
  "setup_error = \<lparr>message = js ''Invalid URL'', response = None, request = False\<rparr>"

definition failing :: "js_error \<Rightarrow> jsstring \<Rightarrow> (jsstring \<rightharpoonup> jsval) \<Rightarrow> axios_result" where
  "failing e url body = Rejected e"


section \<open>Facts about the forecast transform\<close>

lemma nth_last_conv: "xs \<noteq> [] \<Longrightarrow> xs ! (length xs - Suc 0) = last xs"
  by (simp add: last_conv_nth)

lemma all_forecast_filter:
  "list_all (\<lambda>e. type e = ''forecast'') ds \<Longrightarrow>
     filter (\<lambda>d. type d = ''history'') ds = [] \<and> filter (\<lambda>d. type d = ''forecast'') ds = ds"
  by (induction ds) auto

lemma history_then_forecast_split:
  "history_then_forecast ds \<Longrightarrow>
     filter (\<lambda>d. type d = ''history'') ds @ filter (\<lambda>d. type d = ''forecast'') ds = ds"
proof (induction ds)
  case Nil
  show ?case by simp
next
  case (Cons d ds)
  show ?case
  proof (cases "type d = ''history''")
    case True
    with Cons show ?thesis by simp
  next
    case False
    with Cons.prems have f: "type d = ''forecast''" and a: "list_all (\<lambda>e. type e = ''forecast'') ds"
      by simp_all
    from all_forecast_filter [OF a] f show ?thesis by simp
  qed
qed

lemma history_then_forecast_append:
  "list_all (\<lambda>d. type d = ''history'') hs \<Longrightarrow> list_all (\<lambda>d. type d = ''forecast'') fs \<Longrightarrow>
     history_then_forecast (hs @ fs)"
proof (induction hs)
  case Nil
  then show ?case by (cases fs) simp_all
next
  case (Cons h hs)
  then show ?case by simp
qed

lemma mock_history:
  "filter (\<lambda>d. type d = ''history'') mockForecast =
     [pt ''Jan'' 150 ''history'', pt ''Feb'' 155 ''history'', pt ''Mar'' 160 ''history'',
      pt ''Apr'' 165 ''history'', pt ''May'' 170 ''history'', pt ''Jun'' 175 ''history'',
      pt ''Jul'' 180 ''history'', pt ''Aug'' 185 ''history'']"
  by (simp add: mockForecast_def pt_def)

lemma mock_forecast:
  "filter (\<lambda>d. type d = ''forecast'') mockForecast =
     [pt ''Sep'' 190 ''forecast'', pt ''Oct'' 195 ''forecast'', pt ''Nov'' 200 ''forecast'',
      pt ''Dec'' 205 ''forecast'']"
  by (simp add: mockForecast_def pt_def)

lemma mock_nonempty: "mockForecast \<noteq> []"
  by (simp add: mockForecast_def)


text \<open>
  \<^bold>\<open>C1\<close>, as the code has it. \<^verbatim>\<open>PriceForecast\<close> builds the connector the specification describes: the
  last history point followed by the whole forecast series when there is a history point,
  and the forecast series alone otherwise; on the mock series (history Jan..Aug, forecast
  Sep..Dec) it is Aug, Sep, Oct, Nov, Dec. \<^verbatim>\<open>StockChart\<close> builds a different connector: the
  last history point followed by at most the first forecast point when there is a history
  point, and the empty list otherwise; on the mock series it is Aug, Sep.
\<close>

theorem connector_by_component:
  "connector (PriceForecast data) =
     (if filter (\<lambda>d. type d = ''history'') data = []
      then filter (\<lambda>d. type d = ''forecast'') data
      else last (filter (\<lambda>d. type d = ''history'') data) # filter (\<lambda>d. type d = ''forecast'') data)
   \<and> historyData (PriceForecast data) = filter (\<lambda>d. type d = ''history'') data
   \<and> forecastData (PriceForecast data) = filter (\<lambda>d. type d = ''forecast'') data
   \<and> connector (PriceForecast mockForecast) =
       [pt ''Aug'' 185 ''history'', pt ''Sep'' 190 ''forecast'', pt ''Oct'' 195 ''forecast'',
        pt ''Nov'' 200 ''forecast'', pt ''Dec'' 205 ''forecast'']
   \<and> (data \<noteq> [] \<longrightarrow>
        map_option connector (StockChart (Some data)) =
          Some (if filter (\<lambda>d. type d = ''history'') data = [] then []
                else last (filter (\<lambda>d. type d = ''history'') data)
                       # take 1 (filter (\<lambda>d. type d = ''forecast'') data)))
   \<and> map_option connector (StockChart (Some mockForecast)) =
       Some [pt ''Aug'' 185 ''history'', pt ''Sep'' 190 ''forecast'']"
proof -
  have a: "connector (PriceForecast data) =
     (if filter (\<lambda>d. type d = ''history'') data = []
      then filter (\<lambda>d. type d = ''forecast'') data
      else last (filter (\<lambda>d. type d = ''history'') data) # filter (\<lambda>d. type d = ''forecast'') data)"
    by (simp add: PriceForecast_def Let_def nth_last_conv)
  have b: "historyData (PriceForecast data) = filter (\<lambda>d. type d = ''history'') data"
    and c: "forecastData (PriceForecast data) = filter (\<lambda>d. type d = ''forecast'') data"
    by (simp_all add: PriceForecast_def Let_def)
  have d: "connector (PriceForecast mockForecast) =
       [pt ''Aug'' 185 ''history'', pt ''Sep'' 190 ''forecast'', pt ''Oct'' 195 ''forecast'',
        pt ''Nov'' 200 ''forecast'', pt ''Dec'' 205 ''forecast'']"
    by (simp add: PriceForecast_def Let_def mock_history mock_forecast)
  have e: "map_option connector (StockChart (Some ds)) =
          Some (if filter (\<lambda>d. type d = ''history'') ds = [] then []
                else last (filter (\<lambda>d. type d = ''history'') ds)
                       # take 1 (filter (\<lambda>d. type d = ''forecast'') ds))"
    if "ds \<noteq> []" for ds
  proof (cases "filter (\<lambda>d. type d = ''forecast'') ds")
    case Nil
    with that show ?thesis by (simp add: StockChart_def Let_def nth_last_conv)
  next
    case (Cons x xs)
    with that show ?thesis by (simp add: StockChart_def Let_def nth_last_conv)
  qed
  have f: "map_option connector (StockChart (Some mockForecast)) =
       Some [pt ''Aug'' 185 ''history'', pt ''Sep'' 190 ''forecast'']"
    using e [OF mock_nonempty] by (simp add: mock_history mock_forecast)
  from a b c d e f show ?thesis by blast
qed

theorem connector_by_component_witness:
  "[pt ''Jul'' 180 ''history'', pt ''Sep'' 190 ''forecast'', pt ''Oct'' 195 ''forecast''] \<noteq> []
   \<and> map_option connector
       (StockChart (Some [pt ''Jul'' 180 ''history'', pt ''Sep'' 190 ''forecast'',
                          pt ''Oct'' 195 ''forecast''])) =
       Some [pt ''Jul'' 180 ''history'', pt ''Sep'' 190 ''forecast'']
   \<and> connector (PriceForecast [pt ''Jul'' 180 ''history'', pt ''Sep'' 190 ''forecast'',
                                pt ''Oct'' 195 ''forecast'']) =
       [pt ''Jul'' 180 ''history'', pt ''Sep'' 190 ''forecast'', pt ''Oct'' 195 ''forecast'']"
  using connector_by_component
    [of "[pt ''Jul'' 180 ''history'', pt ''Sep'' 190 ''forecast'', pt ''Oct'' 195 ''forecast'']"]
  by (simp add: pt_def)

text \<open>
  The specification's connector is not the one \<^verbatim>\<open>StockChart\<close> builds: on the mock series
  its connector is not Aug, Sep, Oct, Nov, Dec.
\<close>

theorem StockChart_connector_counterexample:
  "map_option connector (StockChart (Some mockForecast)) \<noteq>
     Some [pt ''Aug'' 185 ''history'', pt ''Sep'' 190 ''forecast'', pt ''Oct'' 195 ''forecast'',
           pt ''Nov'' 200 ''forecast'', pt ''Dec'' 205 ''forecast'']"
  by (simp add: StockChart_def Let_def mock_history mock_forecast mock_nonempty)


text \<open>
  \<^bold>\<open>C7\<close>. For every sequence that is one run of \<^verbatim>\<open>history\<close> points followed by one run of
  \<^verbatim>\<open>forecast\<close> points, the history series followed by the forecast series is the input
  again, in \<^verbatim>\<open>PriceForecast\<close> and, whenever it computes series at all (the input is not
  empty), in \<^verbatim>\<open>StockChart\<close>.
\<close>

theorem history_forecast_reconstruct:
  assumes "list_all (\<lambda>d. type d = ''history'') hs"
    and "list_all (\<lambda>d. type d = ''forecast'') fs"
  shows "historyData (PriceForecast (hs @ fs)) @ forecastData (PriceForecast (hs @ fs)) = hs @ fs
    \<and> (case StockChart (Some (hs @ fs)) of
         None \<Rightarrow> hs @ fs = []
       | Some r \<Rightarrow> historyData r @ forecastData r = hs @ fs)"
proof -
  have inv: "history_then_forecast (hs @ fs)"
    using assms by (rule history_then_forecast_append)
  have p: "historyData (PriceForecast (hs @ fs)) @ forecastData (PriceForecast (hs @ fs)) = hs @ fs"
    using history_then_forecast_split [OF inv] by (simp add: PriceForecast_def Let_def)
  have s: "(case StockChart (Some (hs @ fs)) of
         None \<Rightarrow> hs @ fs = []
       | Some r \<Rightarrow> historyData r @ forecastData r = hs @ fs)"
  proof (cases "hs @ fs = []")
    case True
    then show ?thesis by (simp add: StockChart_def)
  next
    case False
    then have "length (hs @ fs) \<noteq> 0" by simp
    then show ?thesis
      using history_then_forecast_split [OF inv]
      by (simp add: StockChart_def Let_def del: filter_append length_append)
  qed
  from p s show ?thesis by blast
qed

theorem history_forecast_reconstruct_witness:
  "list_all (\<lambda>d. type d = ''history'') [pt ''Jul'' 180 ''history'', pt ''Aug'' 185 ''history'']
   \<and> list_all (\<lambda>d. type d = ''forecast'') [pt ''Sep'' 190 ''forecast'']
   \<and> historyData (PriceForecast ([pt ''Jul'' 180 ''history'', pt ''Aug'' 185 ''history'']
                                   @ [pt ''Sep'' 190 ''forecast'']))
     @ forecastData (PriceForecast ([pt ''Jul'' 180 ''history'', pt ''Aug'' 185 ''history'']
                                      @ [pt ''Sep'' 190 ''forecast'']))
     = [pt ''Jul'' 180 ''history'', pt ''Aug'' 185 ''history''] @ [pt ''Sep'' 190 ''forecast'']"
proof -
  have h: "list_all (\<lambda>d. type d = ''history'') [pt ''Jul'' 180 ''history'', pt ''Aug'' 185 ''history'']"
    by (simp add: pt_def)
  have f: "list_all (\<lambda>d. type d = ''forecast'') [pt ''Sep'' 190 ''forecast'']"
    by (simp add: pt_def)
  from history_forecast_reconstruct [OF h f] h f show ?thesis by blast
qed


section \<open>Facts about the form\<close>

lemma unit_comma_space: "unit CHR '' '' \<noteq> unit CHR '',''" "js '', '' = [unit CHR '','', unit CHR '' '']"
  by (simp_all add: js_def unit_def)

lemma split_not_Nil: "split sep s \<noteq> []"
  by (induction s) (auto split: list.splits)

lemma split_no_sep: "sep \<notin> set x \<Longrightarrow> split sep x = [x]"
  by (induction x) auto

lemma split_append_sep: "sep \<notin> set x \<Longrightarrow> split sep (x @ sep # rest) = x # split sep rest"
  by (induction x) auto

lemma trim_leading_space: "isWhiteSpace c \<Longrightarrow> trim (c # w) = trim w"
  by (simp add: trim_def)

lemma map_trim_split_leading:
  assumes "isWhiteSpace c" and "c \<noteq> sep"
  shows "map trim (split sep (c # t)) = map trim (split sep t)"
proof (cases "split sep t")
  case Nil
  then show ?thesis using split_not_Nil [of sep t] by simp
next
  case (Cons w ws)
  then show ?thesis using assms by (simp add: trim_leading_space)
qed

lemma dropWhile_rev_last:
  "x \<noteq> [] \<Longrightarrow> \<not> P (last x) \<Longrightarrow> rev (dropWhile P (rev x)) = x"
  by (cases x rule: rev_cases) auto

lemma trim_plain: "plain_tag x \<Longrightarrow> trim x = x"
proof (cases x)
  case Nil
  then show ?thesis by (simp add: trim_def)
next
  case (Cons c cs)
  assume "plain_tag x"
  with Cons have a: "\<not> isWhiteSpace c" and b: "\<not> isWhiteSpace (last x)"
    by (simp_all add: plain_tag_def)
  from a Cons have "dropWhile isWhiteSpace x = x" by simp
  moreover from b Cons have "rev (dropWhile isWhiteSpace (rev x)) = x"
    by (intro dropWhile_rev_last) auto
  ultimately show ?thesis by (simp add: trim_def)
qed

lemma space_is_white: "isWhiteSpace (unit CHR '' '')"
  by (simp add: isWhiteSpace_def unit_def)

lemma round_trip_tags:
  "xs \<noteq> [] \<Longrightarrow> list_all plain_tag xs \<Longrightarrow>
     map trim (split (unit CHR '','') (join [unit CHR '','', unit CHR '' ''] xs)) = xs"
proof (induction "[unit CHR '','', unit CHR '' '']" xs rule: join.induct)
  case 1
  then show ?case by simp
next
  case (2 x)
  then have "unit CHR '','' \<notin> set x" and "trim x = x"
    by (simp_all add: plain_tag_def trim_plain)
  then show ?case by (simp add: split_no_sep)
next
  case (3 x y ys)
  from "3.prems" have x: "unit CHR '','' \<notin> set x" "trim x = x"
    and rest: "list_all plain_tag (y # ys)"
    by (simp_all add: plain_tag_def trim_plain)
  let ?t = "join [unit CHR '','', unit CHR '' ''] (y # ys)"
  have ih: "map trim (split (unit CHR '','') ?t) = y # ys"
    using "3.hyps" rest by simp
  have "join [unit CHR '','', unit CHR '' ''] (x # y # ys) = x @ unit CHR '','' # (unit CHR '' '' # ?t)"
    by simp
  then have "map trim (split (unit CHR '','') (join [unit CHR '','', unit CHR '' ''] (x # y # ys))) =
      trim x # map trim (split (unit CHR '','') (unit CHR '' '' # ?t))"
    by (simp only: split_append_sep [OF x(1)] list.map)
  also have "map trim (split (unit CHR '','') (unit CHR '' '' # ?t)) =
      map trim (split (unit CHR '','') ?t)"
    by (rule map_trim_split_leading [OF space_is_white unit_comma_space(1)])
  finally show ?case using x(2) ih by simp
qed

lemma those_strings:
  "those (map (\<lambda>x. if x = Undefined \<or> x = Null then Some [] else ToString E x) (map Str xs)) = Some xs"
  by (induction xs) simp_all

lemma Array_join_strings: "Array_join E sep (map Str xs) = Some (join sep xs)"
proof -
  have "Array_join E sep (map Str xs) = map_option (join sep) (Some xs)"
    unfolding Array_join_def by (rule arg_cong [OF those_strings])
  then show ?thesis by simp
qed

lemma length_split: "length (split sep s) = Suc (count_list s sep)"
proof (induction s)
  case Nil
  show ?case by simp
next
  case (Cons c cs)
  then show ?case using split_not_Nil [of sep cs] by (cases "split sep cs") auto
qed

lemma setInput_same: "userInput s key = Some v \<Longrightarrow> setInput key v s = s"
  by (simp add: setInput_def fun_upd_idem)

lemma handleChange_same: "formState key = Some v \<Longrightarrow> handleChange key v formState = formState"
  by (simp add: handleChange_def fun_upd_idem)

text \<open>
  The white space beyond ASCII is stripped, and the sample case mapping maps a Latin-1
  letter.
\<close>

lemma trim_no_break_space: "trim [160, 97, 8195] = [97]"
  by (simp add: trim_def isWhiteSpace_def)

lemma upper_fragment_latin1: "upper_fragment [99, 97, 102, 233] = [67, 65, 70, 201]"
  by (simp add: upper_fragment_def upper_units_def)

text \<open>
  \<^bold>\<open>C10\<close>. When the financial-condition field holds the array \<open>xs\<close>, the input shows
  \<open>xs\<close> joined with a comma and a space. Feeding that text back to the change handler
  (split at commas, each segment trimmed) stores \<open>xs\<close> again, so the round trip is the
  identity, for every non-empty \<open>xs\<close> whose elements contain no comma and no white space
  at either end; for the empty array the round trip stores the one-element array holding
  the empty string. This holds in both forms.
\<close>

theorem financialCondition_round_trip:
  assumes "userInput s (js ''financialCondition'') = Some (Arr (map Str xs))"
  shows "financialCondition_value E (userInput s) = Some (join (js '', '') xs)
    \<and> (xs \<noteq> [] \<and> list_all plain_tag xs \<longrightarrow>
         map trim (split (unit CHR '','') (join (js '', '') xs)) = xs
         \<and> onChange_financialCondition (join (js '', '') xs) s = s
         \<and> SearchForm_onChange_financialCondition (join (js '', '') xs) (userInput s) = userInput s)
    \<and> (xs = [] \<longrightarrow>
         map trim (split (unit CHR '','') (join (js '', '') xs)) = [[]]
         \<and> userInput (onChange_financialCondition (join (js '', '') xs) s) (js ''financialCondition'')
             = Some (Arr [Str []])
         \<and> SearchForm_onChange_financialCondition (join (js '', '') xs) (userInput s)
              (js ''financialCondition'')
             = Some (Arr [Str []]))"
proof -
  have shown: "financialCondition_value E (userInput s) = Some (join (js '', '') xs)"
    using assms by (simp add: financialCondition_value_def Array_join_strings)
  have ident: "map trim (split (unit CHR '','') (join (js '', '') xs)) = xs
         \<and> onChange_financialCondition (join (js '', '') xs) s = s
         \<and> SearchForm_onChange_financialCondition (join (js '', '') xs) (userInput s) = userInput s"
    if "xs \<noteq> []" and "list_all plain_tag xs"
  proof -
    have rt: "map trim (split (unit CHR '','') (join (js '', '') xs)) = xs"
      unfolding unit_comma_space(2) using that by (rule round_trip_tags)
    have "onChange_financialCondition (join (js '', '') xs) s = s"
      unfolding onChange_financialCondition_def rt using assms by (rule setInput_same)
    moreover have "SearchForm_onChange_financialCondition (join (js '', '') xs) (userInput s) = userInput s"
      unfolding SearchForm_onChange_financialCondition_def rt using assms by (rule handleChange_same)
    ultimately show ?thesis using rt by simp
  qed
  have empty: "map trim (split (unit CHR '','') (join (js '', '') xs)) = [[]]
         \<and> userInput (onChange_financialCondition (join (js '', '') xs) s) (js ''financialCondition'')
             = Some (Arr [Str []])
         \<and> SearchForm_onChange_financialCondition (join (js '', '') xs) (userInput s)
              (js ''financialCondition'')
             = Some (Arr [Str []])"
    if "xs = []"
    using that
    by (simp add: trim_def onChange_financialCondition_def setInput_def
        SearchForm_onChange_financialCondition_def handleChange_def)
  from shown ident empty show ?thesis by blast
qed

theorem financialCondition_round_trip_witness:
  "userInput (onChange_financialCondition (js ''Stable Income,High Debt'') initial_store)
      (js ''financialCondition'')
     = Some (Arr (map Str [js ''Stable Income'', js ''High Debt'']))
   \<and> list_all plain_tag [js ''Stable Income'', js ''High Debt'']
   \<and> join (js '', '') [js ''Stable Income'', js ''High Debt''] = js ''Stable Income, High Debt''
   \<and> map trim (split (unit CHR '','') (js ''Stable Income, High Debt''))
       = [js ''Stable Income'', js ''High Debt'']
   \<and> onChange_financialCondition (js ''Stable Income, High Debt'')
        (onChange_financialCondition (js ''Stable Income,High Debt'') initial_store)
       = onChange_financialCondition (js ''Stable Income,High Debt'') initial_store
   \<and> userInput (setInput (js ''financialCondition'') (Arr (map Str [])) initial_store)
        (js ''financialCondition'')
       = Some (Arr (map Str []))
   \<and> userInput (onChange_financialCondition (join (js '', '') [])
                   (setInput (js ''financialCondition'') (Arr (map Str [])) initial_store))
        (js ''financialCondition'') = Some (Arr [Str []])"
proof -
  let ?s = "onChange_financialCondition (js ''Stable Income,High Debt'') initial_store"
  let ?xs = "[js ''Stable Income'', js ''High Debt'']"
  let ?t = "setInput (js ''financialCondition'') (Arr (map Str [])) initial_store"
  have h: "userInput ?s (js ''financialCondition'') = Some (Arr (map Str ?xs))"
    by (simp add: onChange_financialCondition_def setInput_def trim_def isWhiteSpace_def js_def
        unit_def)
  have p: "list_all plain_tag ?xs"
    by (simp add: plain_tag_def isWhiteSpace_def js_def unit_def)
  have j: "join (js '', '') ?xs = js ''Stable Income, High Debt''"
    by (simp add: js_def)
  have k: "userInput ?t (js ''financialCondition'') = Some (Arr (map Str []))"
    by (simp add: setInput_def)
  from financialCondition_round_trip [OF h] financialCondition_round_trip [OF k] h p j k
  show ?thesis by simp
qed

text \<open>
  \<^bold>\<open>C3\<close>. Setting a field and reading it back returns the value the handler stores:
  the upper-cased text for the ticker; the text split at commas with each segment trimmed
  for the financial condition, one element per segment (one more than there are commas, so
  empty segments stay); the text as it is for risk tolerance and trading preferences; and
  for the expected return the number handed over, as it is. Every other field, and the
  rest of the store, is unchanged.
\<close>

theorem setInput_read_back:
  "userInput (setInput key v s) key = Some v
   \<and> (key' \<noteq> key \<longrightarrow> userInput (setInput key v s) key' = userInput s key')
   \<and> isLoading (setInput key v s) = isLoading s
   \<and> apiError (setInput key v s) = apiError s
   \<and> analysisResults (setInput key v s) = analysisResults s
   \<and> userInput (onChange_ticker E raw s) (js ''ticker'') = Some (Str (toUpperCase E raw))
   \<and> (key' \<noteq> js ''ticker'' \<longrightarrow> userInput (onChange_ticker E raw s) key' = userInput s key')
   \<and> userInput (onChange_financialCondition raw s) (js ''financialCondition'')
       = Some (Arr (map Str (map trim (split (unit CHR '','') raw))))
   \<and> length (map trim (split (unit CHR '','') raw)) = Suc (count_list raw (unit CHR '',''))
   \<and> (key' \<noteq> js ''financialCondition'' \<longrightarrow>
        userInput (onChange_financialCondition raw s) key' = userInput s key')
   \<and> userInput (onChange_riskTolerance raw s) (js ''riskTolerance'') = Some (Str raw)
   \<and> (key' \<noteq> js ''riskTolerance'' \<longrightarrow>
        userInput (onChange_riskTolerance raw s) key' = userInput s key')
   \<and> userInput (onChange_tradingPreferences raw s) (js ''tradingPreferences'') = Some (Str raw)
   \<and> (key' \<noteq> js ''tradingPreferences'' \<longrightarrow>
        userInput (onChange_tradingPreferences raw s) key' = userInput s key')
   \<and> userInput (setInput (js ''expectedReturn'') (Number n) s) (js ''expectedReturn'')
       = Some (Number n)
   \<and> (key' \<noteq> js ''expectedReturn'' \<longrightarrow>
        userInput (setInput (js ''expectedReturn'') (Number n) s) key' = userInput s key')"
  by (simp add: setInput_def onChange_ticker_def onChange_financialCondition_def
      onChange_riskTolerance_def onChange_tradingPreferences_def length_split)

lemma keys_distinct:
  "js ''riskTolerance'' \<noteq> js ''ticker''" "js ''ticker'' \<noteq> js ''financialCondition''"
  "js ''ticker'' \<noteq> js ''riskTolerance''" "js ''ticker'' \<noteq> js ''tradingPreferences''"
  "js ''ticker'' \<noteq> js ''expectedReturn''"
  by (simp_all add: js_def unit_def)

lemma initial_fields:
  "userInput initial_store (js ''ticker'') = Some (Str (js ''AAPL''))"
  "userInput initial_store (js ''riskTolerance'') = Some (Str (js ''Medium''))"
  "userInput initial_store (js ''expectedReturn'') = Some (Number (Finite 15))"
  by (simp_all add: initial_store_def js_def unit_def)

theorem setInput_read_back_witness:
  "js ''riskTolerance'' \<noteq> js ''ticker''
   \<and> userInput (onChange_ticker sample_engine (js ''msft'') initial_store) (js ''ticker'')
       = Some (Str (js ''MSFT''))
   \<and> userInput (onChange_ticker sample_engine (js ''msft'') initial_store) (js ''riskTolerance'')
       = Some (Str (js ''Medium''))
   \<and> userInput (onChange_financialCondition (js '' a,, b '') initial_store) (js ''financialCondition'')
       = Some (Arr [Str (js ''a''), Str [], Str (js ''b'')])
   \<and> userInput (onChange_financialCondition (js '' a,, b '') initial_store) (js ''ticker'')
       = Some (Str (js ''AAPL''))
   \<and> userInput (onChange_riskTolerance (js ''High'') initial_store) (js ''riskTolerance'')
       = Some (Str (js ''High''))
   \<and> userInput (onChange_riskTolerance (js ''High'') initial_store) (js ''ticker'')
       = Some (Str (js ''AAPL''))
   \<and> userInput (onChange_tradingPreferences (js ''none'') initial_store) (js ''tradingPreferences'')
       = Some (Str (js ''none''))
   \<and> userInput (onChange_tradingPreferences (js ''none'') initial_store) (js ''ticker'')
       = Some (Str (js ''AAPL''))
   \<and> userInput (setInput (js ''expectedReturn'') (Number (Finite 400)) initial_store)
        (js ''expectedReturn'')
       = Some (Number (Finite 400))
   \<and> userInput (setInput (js ''expectedReturn'') (Number (Finite 400)) initial_store) (js ''ticker'')
       = Some (Str (js ''AAPL''))"
proof -
  note t1 = setInput_read_back [where key = "js ''ticker''" and v = "Str (js ''MSFT'')"
      and s = initial_store and key' = "js ''riskTolerance''" and E = sample_engine
      and raw = "js ''msft''" and n = "Finite 400"]
  note t2 = setInput_read_back [where key = "js ''ticker''" and v = "Str (js ''MSFT'')"
      and s = initial_store and key' = "js ''ticker''" and E = sample_engine
      and raw = "js '' a,, b ''" and n = "Finite 400"]
  note t3 = setInput_read_back [where key = "js ''ticker''" and v = "Str (js ''MSFT'')"
      and s = initial_store and key' = "js ''ticker''" and E = sample_engine
      and raw = "js ''High''" and n = "Finite 400"]
  note t4 = setInput_read_back [where key = "js ''ticker''" and v = "Str (js ''MSFT'')"
      and s = initial_store and key' = "js ''ticker''" and E = sample_engine
      and raw = "js ''none''" and n = "Finite 400"]
  have u: "toUpperCase sample_engine (js ''msft'') = js ''MSFT''"
    by (simp add: sample_engine_def upper_fragment_def upper_units_def js_def unit_def)
  have w: "map trim (split (unit CHR '','') (js '' a,, b '')) = [js ''a'', [], js ''b'']"
    by (simp add: trim_def isWhiteSpace_def js_def unit_def)
  from t1 t2 t3 t4 u w keys_distinct initial_fields show ?thesis by simp
qed




text \<open>The sample engine rounds an integer that no double holds to the nearest one.\<close>

lemma nearest_double_rounds: "nearest_double 9007199254740993 = Finite 9007199254740992"
proof -
  have e: "exponent 9007199254740993 = 1" by (simp add: exponent.simps)
  have "(2::nat) ^ 54 \<le> 2 ^ 1024" by (rule power_increasing) simp_all
  then have big: "\<not> (2::nat) ^ 1024 \<le> 9007199254740992" by simp
  have "nearest_double 9007199254740993 =
      (if (2::nat) ^ 1024 \<le> 9007199254740992 then PosInfinity else Finite 9007199254740992)"
    unfolding nearest_double_def Let_def by (simp add: e del: power_numeral)
  with big show ?thesis by (simp only: if_False)
qed





section \<open>Facts about submitting\<close>

lemma property_nullish: "nullish data \<Longrightarrow> property data p = Undefined"
  by (auto simp: nullish_def property_def)

lemma accepted_Resolved:
  "accepted E (Resolved data) =
     (\<not> truthy (property data (js ''error'')) \<and>
      (\<exists>s v. property data (js ''analysis'') = Str s \<and> s \<noteq> [] \<and> \<not> prefix (js ''Error:'') s \<and>
             JSON_parse E s = Inr v))"
proof (cases "property data (js ''analysis'')")
  case (Str s)
  then show ?thesis
    by (cases "JSON_parse E s") (simp_all add: accepted_def)
qed (simp_all add: accepted_def)

lemma try_block_accepted:
  assumes "accepted E (Resolved data)"
  shows "try_block E (Resolved data) = Inr (parsed_payload E (Resolved data))"
proof -
  from assms obtain s v where
    e: "\<not> truthy (property data (js ''error''))" and
    a: "property data (js ''analysis'') = Str s" and
    s: "s \<noteq> []" "\<not> prefix (js ''Error:'') s" and
    p: "JSON_parse E s = Inr v"
    unfolding accepted_Resolved by blast
  from a have n: "\<not> nullish data" using property_nullish [of data "js ''analysis''"] by auto
  have "try_block E (Resolved data) = Inr v"
    unfolding try_block_def using n e a s p by (simp add: Let_def)
  moreover have "parsed_payload E (Resolved data) = v"
    unfolding parsed_payload_def using a p by simp
  ultimately show ?thesis by simp
qed

lemma try_block_refused:
  assumes "\<not> accepted E (Resolved data)"
  shows "try_block E (Resolved data) = Inl (Error (thrown_message E data))"
proof (cases "nullish data")
  case True
  then show ?thesis unfolding try_block_def thrown_message_def by simp
next
  case nn: False
  show ?thesis
  proof (cases "truthy (property data (js ''error''))")
    case True
    with nn show ?thesis
      unfolding try_block_def thrown_message_def
      by (cases "ToString E (property data (js ''error''))") simp_all
  next
    case ne: False
    show ?thesis
    proof (cases "truthy (property data (js ''analysis''))")
      case False
      with nn ne show ?thesis unfolding try_block_def thrown_message_def by (simp add: Let_def)
    next
      case ta: True
      show ?thesis
      proof (cases "property data (js ''analysis'')")
        case (Str s)
        with ta have s: "s \<noteq> []" by simp
        show ?thesis
        proof (cases "prefix (js ''Error:'') s")
          case True
          with nn ne ta Str show ?thesis
            unfolding try_block_def thrown_message_def by (simp add: Let_def)
        next
          case np: False
          from assms ne Str s np have "\<nexists>v. JSON_parse E s = Inr v"
            unfolding accepted_Resolved by simp
          then obtain m where "JSON_parse E s = Inl m" by (cases "JSON_parse E s") auto
          with nn ne ta Str np show ?thesis
            unfolding try_block_def thrown_message_def by (simp add: Let_def)
        qed
      qed (use nn ne ta in \<open>simp_all add: try_block_def thrown_message_def Let_def\<close>)
    qed
  qed
qed

lemma catch_block_Error: "catch_block E (Error m) = Some m"
  by (simp add: catch_block_def Error_def)

lemma settle_accepted: "accepted E r \<Longrightarrow> settle E r = Succeeded (parsed_payload E r)"
proof (cases r)
  case (Rejected e)
  assume "accepted E r"
  with Rejected show ?thesis by (simp add: accepted_def)
next
  case (Resolved data)
  assume "accepted E r"
  with Resolved show ?thesis by (simp add: settle_def try_block_accepted)
qed

lemma settle_Resolved_refused:
  "\<not> accepted E (Resolved data) \<Longrightarrow> settle E (Resolved data) = Failed (thrown_message E data)"
  by (simp add: settle_def try_block_refused catch_block_Error)

lemma settle_Rejected:
  "settle E (Rejected e) =
     (case response e of
        Some data \<Rightarrow>
          if nullish data then Unhandled
          else if truthy (property data (js ''detail''))
          then (case ToString E (property data (js ''detail'')) of
                  Some t \<Rightarrow> Failed (js ''Server Error: '' @ t)
                | None \<Rightarrow> Unhandled)
          else Failed (js ''Server Error: '' @ message e)
      | None \<Rightarrow>
          if request e
          then Failed (js ''Connection Error: Is the Python server running at '' @ API_BASE_URL E
                       @ js ''?'')
          else Failed (message e))"
  by (simp add: settle_def try_block_def catch_block_def split: option.splits)

lemma settle_refused:
  "\<not> accepted E r \<Longrightarrow> \<not> catch_throws E r \<Longrightarrow> \<exists>m. settle E r = Failed m"
proof (cases r)
  case (Resolved data)
  assume "\<not> accepted E r"
  with Resolved show ?thesis by (simp add: settle_Resolved_refused)
next
  case (Rejected e)
  assume "\<not> catch_throws E r"
  with Rejected show ?thesis
    by (auto simp: settle_Rejected catch_throws_def split: option.splits)
qed

lemma settle_catch_throws: "catch_throws E r \<Longrightarrow> settle E r = Unhandled"
  by (cases r) (auto simp: catch_throws_def settle_Rejected split: option.splits)

lemma catch_throws_not_accepted: "catch_throws E r \<Longrightarrow> \<not> accepted E r"
  by (cases r) (simp_all add: catch_throws_def accepted_def)

lemma settle_Succeeded_iff: "(\<exists>d. settle E r = Succeeded d) \<longleftrightarrow> accepted E r"
proof
  assume "\<exists>d. settle E r = Succeeded d"
  then obtain d where d: "settle E r = Succeeded d" ..
  show "accepted E r"
  proof (rule ccontr)
    assume n: "\<not> accepted E r"
    show False
    proof (cases r)
      case (Resolved data)
      with n d show ?thesis by (simp add: settle_Resolved_refused)
    next
      case (Rejected e)
      with d show ?thesis by (simp add: settle_Rejected split: option.splits if_splits)
    qed
  qed
next
  assume "accepted E r"
  then show "\<exists>d. settle E r = Succeeded d" by (simp add: settle_accepted)
qed

lemma fetchAnalysis_settle:
  "post (API_BASE_URL E @ js ''/api/analyze'') (userInput s) = result \<Longrightarrow>
     fetchAnalysis E post s = commit (settle E result) (fetchAnalysis_begin s)"
  by (simp add: fetchAnalysis_def fetchAnalysis_resolve_def)

lemma sample_accepts_empty_object:
  "accepted sample_engine (Resolved (Obj [(js ''analysis'', Str (js ''{}''))]))"
  "parsed_payload sample_engine (Resolved (Obj [(js ''analysis'', Str (js ''{}''))])) = Obj []"
  "accepted sample_engine (Resolved (Obj [(js ''error'', Str []), (js ''analysis'', Str (js ''{}''))]))"
  "parsed_payload sample_engine
     (Resolved (Obj [(js ''error'', Str []), (js ''analysis'', Str (js ''{}''))])) = Obj []"
  "accepted sample_engine (Resolved (Obj [(js ''analysis'', Str (js ''[]''))]))"
  "parsed_payload sample_engine (Resolved (Obj [(js ''analysis'', Str (js ''[]''))])) = Arr []"
  "accepted sample_engine (Resolved (Obj [(js ''analysis'', Str (js ''null''))]))"
  "parsed_payload sample_engine (Resolved (Obj [(js ''analysis'', Str (js ''null''))])) = Null"
  by (simp_all add: accepted_def parsed_payload_def property_def sample_engine_def
      JSON_parse_fragment_def js_def unit_def)

lemma sample_base_url: "API_BASE_URL sample_engine = js ''http://127.0.0.1:8000''"
  by (simp add: API_BASE_URL_def sample_engine_def)

lemma connection_message:
  "js ''Connection Error: Is the Python server running at '' @ js ''http://127.0.0.1:8000'' @ js ''?''
     = js ''Connection Error: Is the Python server running at http://127.0.0.1:8000?''"
  by (simp add: js_def)

lemma offline_refused:
  "\<not> accepted E (Rejected network_error)" "\<not> catch_throws E (Rejected network_error)"
  "settle E (Rejected network_error) =
     Failed (js ''Connection Error: Is the Python server running at '' @ API_BASE_URL E @ js ''?'')"
  by (simp_all add: accepted_def catch_throws_def network_error_def settle_Rejected)

lemma offline_settles:
  "settle sample_engine (Rejected network_error) =
     Failed (js ''Connection Error: Is the Python server running at http://127.0.0.1:8000?'')"
  by (simp only: offline_refused(3) sample_base_url connection_message)

lemma setup_refused:
  "\<not> accepted E (Rejected setup_error)" "\<not> catch_throws E (Rejected setup_error)"
  "settle E (Rejected setup_error) = Failed (js ''Invalid URL'')"
  by (simp_all add: accepted_def catch_throws_def setup_error_def settle_Rejected)

lemma non_empty_messages:
  "js ''Connection Error: Is the Python server running at http://127.0.0.1:8000?'' \<noteq> []"
  "js ''Invalid URL'' \<noteq> []"
  by (simp_all add: js_def)

text \<open>
  \<^bold>\<open>C2\<close>, as the code has it. A submission ends with the spinner off, no error and the parsed
  payload stored as the result exactly when the transport succeeds with a 2xx response
  whose \<^verbatim>\<open>error\<close> field is absent or falsy and whose \<^verbatim>\<open>analysis\<close> field is a non-empty
  string that does not start with \<^verbatim>\<open>Error:\<close> and that \<^verbatim>\<open>JSON.parse\<close> accepts; the parsed
  value is stored whatever its shape, and \<^verbatim>\<open>DashboardDisplay\<close> returns the dashboard for it
  unless it is null. In every other case in which the \<^verbatim>\<open>catch\<close> block completes (any case
  but a rejection whose response body is null or undefined, or whose truthy detail does not
  convert to a string) it ends with the spinner off, the result untouched and a message in
  \<^verbatim>\<open>apiError\<close>, which the error panel shows when it is not empty.
\<close>

theorem fetchAnalysis_success_iff:
  assumes "post (API_BASE_URL E @ js ''/api/analyze'') (userInput s) = result"
  shows "(isLoading (fetchAnalysis E post s) = False \<and> apiError (fetchAnalysis E post s) = None)
           = accepted E result
       \<and> (accepted E result \<longrightarrow>
            fetchAnalysis E post s =
              s\<lparr>isLoading := False, apiError := None, analysisResults := parsed_payload E result\<rparr>
            \<and> DashboardDisplay (fetchAnalysis E post s) =
                (if nullish (parsed_payload E result) then Throws
                 else Dashboard (parsed_payload E result)))
       \<and> (\<not> accepted E result \<and> \<not> catch_throws E result \<longrightarrow>
            (\<exists>m. fetchAnalysis E post s = s\<lparr>isLoading := False, apiError := Some m\<rparr>
                \<and> (m \<noteq> [] \<longrightarrow> DashboardDisplay (fetchAnalysis E post s) = ErrorPanel m)))"
proof -
  note f = fetchAnalysis_settle [of post E s result, OF assms]
  have good: "fetchAnalysis E post s =
              s\<lparr>isLoading := False, apiError := None, analysisResults := parsed_payload E result\<rparr>
            \<and> DashboardDisplay (fetchAnalysis E post s) =
                (if nullish (parsed_payload E result) then Throws
                 else Dashboard (parsed_payload E result))"
    if "accepted E result"
    using settle_accepted [OF that] f
    by (simp add: fetchAnalysis_begin_def DashboardDisplay_def)
  have bad: "\<exists>m. fetchAnalysis E post s = s\<lparr>isLoading := False, apiError := Some m\<rparr>
                \<and> (m \<noteq> [] \<longrightarrow> DashboardDisplay (fetchAnalysis E post s) = ErrorPanel m)"
    if "\<not> accepted E result" and "\<not> catch_throws E result"
  proof -
    from settle_refused [OF that] obtain m where "settle E result = Failed m" ..
    with f have "fetchAnalysis E post s = s\<lparr>isLoading := False, apiError := Some m\<rparr>"
      by (simp add: fetchAnalysis_begin_def)
    then show ?thesis by (auto simp: DashboardDisplay_def)
  qed
  have stuck: "isLoading (fetchAnalysis E post s)" if "catch_throws E result"
    using settle_catch_throws [OF that] f by (simp add: fetchAnalysis_begin_def)
  have iff: "(isLoading (fetchAnalysis E post s) = False \<and> apiError (fetchAnalysis E post s) = None)
           = accepted E result"
  proof (cases "accepted E result")
    case True
    with good show ?thesis by simp
  next
    case False
    show ?thesis
    proof (cases "catch_throws E result")
      case True
      with stuck False show ?thesis by simp
    next
      case n: False
      from bad [OF False n] False show ?thesis by auto
    qed
  qed
  from iff good bad show ?thesis by blast
qed

theorem fetchAnalysis_success_iff_witness:
  "accepted sample_engine (Resolved (Obj [(js ''analysis'', Str (js ''{}''))]))
   \<and> fetchAnalysis sample_engine (replies (Obj [(js ''analysis'', Str (js ''{}''))])) initial_store =
       initial_store\<lparr>isLoading := False, apiError := None, analysisResults := Obj []\<rparr>
   \<and> DashboardDisplay (fetchAnalysis sample_engine (replies (Obj [(js ''analysis'', Str (js ''{}''))]))
        initial_store) = Dashboard (Obj [])
   \<and> \<not> accepted sample_engine (Rejected network_error)
   \<and> \<not> catch_throws sample_engine (Rejected network_error)
   \<and> fetchAnalysis sample_engine offline initial_store =
       initial_store\<lparr>isLoading := False,
         apiError := Some (js ''Connection Error: Is the Python server running at http://127.0.0.1:8000?'')\<rparr>
   \<and> DashboardDisplay (fetchAnalysis sample_engine offline initial_store) =
       ErrorPanel (js ''Connection Error: Is the Python server running at http://127.0.0.1:8000?'')"
proof -
  let ?m = "js ''Connection Error: Is the Python server running at http://127.0.0.1:8000?''"
  let ?ok = "Obj [(js ''analysis'', Str (js ''{}''))]"
  have a: "replies ?ok (API_BASE_URL sample_engine @ js ''/api/analyze'') (userInput initial_store)
             = Resolved ?ok"
    by (simp add: replies_def)
  have b: "offline (API_BASE_URL sample_engine @ js ''/api/analyze'') (userInput initial_store)
             = Rejected network_error"
    by (simp add: offline_def)
  note t1 = fetchAnalysis_success_iff [of "replies ?ok" sample_engine initial_store, OF a]
  note t2 = fetchAnalysis_success_iff [of offline sample_engine initial_store, OF b]
  have e: "apiError (fetchAnalysis sample_engine offline initial_store) = Some ?m"
    by (simp add: fetchAnalysis_def offline_def fetchAnalysis_resolve_def offline_settles)
  from t2 offline_refused(1) [of sample_engine] offline_refused(2) [of sample_engine]
  obtain m where m: "fetchAnalysis sample_engine offline initial_store =
        initial_store\<lparr>isLoading := False, apiError := Some m\<rparr>"
    and v: "m \<noteq> [] \<longrightarrow> DashboardDisplay (fetchAnalysis sample_engine offline initial_store) = ErrorPanel m"
    by blast
  from m e have "m = ?m" by simp
  with m v non_empty_messages(1) have bad: "fetchAnalysis sample_engine offline initial_store =
        initial_store\<lparr>isLoading := False, apiError := Some ?m\<rparr>"
      "DashboardDisplay (fetchAnalysis sample_engine offline initial_store) = ErrorPanel ?m"
    by simp_all
  from t1 sample_accepts_empty_object(1) have g:
    "fetchAnalysis sample_engine (replies ?ok) initial_store =
       initial_store\<lparr>isLoading := False, apiError := None,
         analysisResults := parsed_payload sample_engine (Resolved ?ok)\<rparr>"
    "DashboardDisplay (fetchAnalysis sample_engine (replies ?ok) initial_store) =
       (if nullish (parsed_payload sample_engine (Resolved ?ok)) then Throws
        else Dashboard (parsed_payload sample_engine (Resolved ?ok)))"
    by blast+
  have nn: "\<not> nullish (Obj [])" by (simp add: nullish_def)
  have good:
    "fetchAnalysis sample_engine (replies ?ok) initial_store =
       initial_store\<lparr>isLoading := False, apiError := None, analysisResults := Obj []\<rparr>"
    "DashboardDisplay (fetchAnalysis sample_engine (replies ?ok) initial_store) = Dashboard (Obj [])"
    using g nn unfolding sample_accepts_empty_object(2) by simp_all
  from good bad sample_accepts_empty_object(1) offline_refused(1) [of sample_engine]
    offline_refused(2) [of sample_engine]
  show ?thesis by blast
qed

text \<open>
  The specification has success depend on the payload having the \<^verbatim>\<open>AnalysisResult\<close> shape
  and on there being no \<^verbatim>\<open>error\<close> field. It does not: the payload \<^verbatim>\<open>{}\<close> parses but has
  not the shape, and the submission succeeds and stores it; and a response with an
  \<^verbatim>\<open>error\<close> field that is the empty string succeeds as well.
\<close>

theorem unvalidated_payload_counterexample:
  "isLoading (fetchAnalysis sample_engine (replies (Obj [(js ''analysis'', Str (js ''{}''))]))
      initial_store) = False
   \<and> apiError (fetchAnalysis sample_engine (replies (Obj [(js ''analysis'', Str (js ''{}''))]))
        initial_store) = None
   \<and> analysisResults (fetchAnalysis sample_engine (replies (Obj [(js ''analysis'', Str (js ''{}''))]))
        initial_store) = Obj []
   \<and> \<not> valid_AnalysisResult (Obj [])
   \<and> apiError (fetchAnalysis sample_engine
        (replies (Obj [(js ''error'', Str []), (js ''analysis'', Str (js ''{}''))])) initial_store) = None
   \<and> analysisResults (fetchAnalysis sample_engine
        (replies (Obj [(js ''error'', Str []), (js ''analysis'', Str (js ''{}''))])) initial_store)
       = Obj []"
  by (simp add: fetchAnalysis_def fetchAnalysis_resolve_def replies_def settle_accepted
      sample_accepts_empty_object fetchAnalysis_begin_def valid_AnalysisResult_def
      property_def is_string_def)

text \<open>
  The shape check is satisfiable (the mock data has the shape). A rejection on which the
  \<^verbatim>\<open>catch\<close> block throws leaves the store loading, as the one with a detail that has a
  \<^verbatim>\<open>toString\<close> property of its own does. A thrown message can be empty, and then the
  dashboard, not the error panel, is returned. The payload \<^verbatim>\<open>null\<close> is stored, and
  \<^verbatim>\<open>DashboardDisplay\<close> throws on it.
\<close>

lemma mockData_valid: "valid_AnalysisResult mockData"
  by (simp add: valid_AnalysisResult_def mockData_def property_def is_string_def is_number_def
      valid_InvestmentAdviceData_def valid_RecommendedStockData_def valid_ForecastData_def
      point_json_def mockForecast_def pt_def js_def unit_def)

lemma unhandled_rejection:
  assumes "post (API_BASE_URL E @ js ''/api/analyze'') (userInput s) = result"
    and "catch_throws E result"
  shows "fetchAnalysis E post s = fetchAnalysis_begin s"
  using settle_catch_throws [OF assms(2)]
  by (simp add: fetchAnalysis_settle [of post E s, OF assms(1)])

lemma odd_detail_throws: "catch_throws E (Rejected http_500_odd_detail)"
  by (simp add: catch_throws_def http_500_odd_detail_def property_def js_def unit_def)

lemma odd_detail_stays_loading:
  "fetchAnalysis E (failing http_500_odd_detail) s = fetchAnalysis_begin s"
  by (rule unhandled_rejection [of "failing http_500_odd_detail" E s, OF _ odd_detail_throws])
    (simp add: failing_def)

lemma empty_message_shows_dashboard:
  "fetchAnalysis sample_engine (replies (Obj [(js ''error'', Arr [])])) initial_store =
     initial_store\<lparr>isLoading := False, apiError := Some []\<rparr>"
  "DashboardDisplay (fetchAnalysis sample_engine (replies (Obj [(js ''error'', Arr [])])) initial_store)
     = Dashboard mockData"
  by (simp_all add: fetchAnalysis_def fetchAnalysis_resolve_def replies_def settle_Resolved_refused
      accepted_def thrown_message_def property_def nullish_def fetchAnalysis_begin_def
      DashboardDisplay_def initial_store_def mockData_def)

lemma null_payload_throws:
  "DashboardDisplay (fetchAnalysis sample_engine
     (replies (Obj [(js ''analysis'', Str (js ''null''))])) initial_store) = Throws"
  by (simp add: fetchAnalysis_def fetchAnalysis_resolve_def replies_def settle_accepted
      sample_accepts_empty_object fetchAnalysis_begin_def DashboardDisplay_def nullish_def)

text \<open>
  \<^bold>\<open>C5\<close>, as the code has it. When a submit fails, the stored message is chosen in this order.
  If the caught error carries a response (with a body that is not null): \<^verbatim>\<open>Server Error:\<close>
  followed by the response's \<^verbatim>\<open>detail\<close> as a string, when the detail is truthy and converts
  to one, or by the error's own message, when the detail is absent or falsy. Otherwise, if
  it carries a request: the connection message naming the configured base address.
  Otherwise: the caught error's own message, which for an error thrown in the \<^verbatim>\<open>try\<close> block
  is the response's \<^verbatim>\<open>error\<close> field as a string, the \<^verbatim>\<open>Error:\<close> payload,
  \<^verbatim>\<open>Empty response from AI\<close> or the engine's message.
\<close>

theorem error_message_priority:
  assumes "post (API_BASE_URL E @ js ''/api/analyze'') (userInput s) = result"
  shows "(result = Rejected e \<and> response e = Some data \<and> \<not> nullish data
            \<and> truthy (property data (js ''detail''))
            \<and> ToString E (property data (js ''detail'')) = Some t \<longrightarrow>
            apiError (fetchAnalysis E post s) = Some (js ''Server Error: '' @ t))
       \<and> (result = Rejected e \<and> response e = Some data \<and> \<not> nullish data
            \<and> \<not> truthy (property data (js ''detail'')) \<longrightarrow>
            apiError (fetchAnalysis E post s) = Some (js ''Server Error: '' @ message e))
       \<and> (result = Rejected e \<and> response e = None \<and> request e \<longrightarrow>
            apiError (fetchAnalysis E post s) =
              Some (js ''Connection Error: Is the Python server running at '' @ API_BASE_URL E
                    @ js ''?''))
       \<and> (result = Rejected e \<and> response e = None \<and> \<not> request e \<longrightarrow>
            apiError (fetchAnalysis E post s) = Some (message e))
       \<and> (result = Resolved body \<and> \<not> accepted E result \<longrightarrow>
            apiError (fetchAnalysis E post s) = Some (thrown_message E body))"
proof -
  note f = fetchAnalysis_settle [of post E s result, OF assms]
  have a: "apiError (fetchAnalysis E post s) = Some (js ''Server Error: '' @ t)"
    if "result = Rejected e" "response e = Some data" "\<not> nullish data"
      "truthy (property data (js ''detail''))" "ToString E (property data (js ''detail'')) = Some t"
    using that f by (simp add: settle_Rejected)
  have a': "apiError (fetchAnalysis E post s) = Some (js ''Server Error: '' @ message e)"
    if "result = Rejected e" "response e = Some data" "\<not> nullish data"
      "\<not> truthy (property data (js ''detail''))"
    using that f by (simp add: settle_Rejected)
  have b: "apiError (fetchAnalysis E post s) =
              Some (js ''Connection Error: Is the Python server running at '' @ API_BASE_URL E
                    @ js ''?'')"
    if "result = Rejected e" "response e = None" "request e"
    using that f by (simp add: settle_Rejected)
  have c: "apiError (fetchAnalysis E post s) = Some (message e)"
    if "result = Rejected e" "response e = None" "\<not> request e"
    using that f by (simp add: settle_Rejected)
  have d: "apiError (fetchAnalysis E post s) = Some (thrown_message E body)"
    if "result = Resolved body" "\<not> accepted E result"
    using that f by (simp add: settle_Resolved_refused)
  show ?thesis
    by (intro conjI impI; elim conjE; (rule a a' b c d; assumption))
qed

theorem error_message_priority_witness:
  "response http_500 = Some (Obj [(js ''detail'', Str (js ''Analysis failed''))])
   \<and> \<not> nullish (Obj [(js ''detail'', Str (js ''Analysis failed''))])
   \<and> truthy (property (Obj [(js ''detail'', Str (js ''Analysis failed''))]) (js ''detail''))
   \<and> apiError (fetchAnalysis sample_engine (failing http_500) initial_store)
       = Some (js ''Server Error: '' @ js ''Analysis failed'')
   \<and> \<not> truthy (property (Obj []) (js ''detail''))
   \<and> apiError (fetchAnalysis sample_engine
        (failing \<lparr>message = js ''Request failed with status code 404'', response = Some (Obj []),
                   request = True\<rparr>) initial_store)
       = Some (js ''Server Error: '' @ js ''Request failed with status code 404'')
   \<and> response network_error = None \<and> request network_error
   \<and> apiError (fetchAnalysis sample_engine (failing network_error) initial_store)
       = Some (js ''Connection Error: Is the Python server running at http://127.0.0.1:8000?'')
   \<and> response setup_error = None \<and> \<not> request setup_error
   \<and> apiError (fetchAnalysis sample_engine (failing setup_error) initial_store)
       = Some (js ''Invalid URL'')
   \<and> \<not> accepted sample_engine (Resolved (Obj [(js ''analysis'', Str (js ''Error: model unavailable''))]))
   \<and> apiError (fetchAnalysis sample_engine
        (replies (Obj [(js ''analysis'', Str (js ''Error: model unavailable''))])) initial_store)
       = Some (js ''Error: model unavailable'')"
proof -
  let ?d = "Obj [(js ''detail'', Str (js ''Analysis failed''))]"
  let ?b = "Obj [(js ''analysis'', Str (js ''Error: model unavailable''))]"
  let ?e404 = "\<lparr>message = js ''Request failed with status code 404'', response = Some (Obj []),
                   request = True\<rparr>"
  have p: "failing e (API_BASE_URL sample_engine @ js ''/api/analyze'') (userInput initial_store)
             = Rejected e" for e
    by (simp add: failing_def)
  have q: "replies ?b (API_BASE_URL sample_engine @ js ''/api/analyze'') (userInput initial_store)
             = Resolved ?b"
    by (simp add: replies_def)
  have h1: "response http_500 = Some ?d" "\<not> nullish ?d" "truthy (property ?d (js ''detail''))"
    "ToString sample_engine (property ?d (js ''detail'')) = Some (js ''Analysis failed'')"
    by (simp_all add: http_500_def nullish_def property_def js_def unit_def)
  have h1': "response ?e404 = Some (Obj [])" "\<not> nullish (Obj [])"
    "\<not> truthy (property (Obj []) (js ''detail''))"
    "message ?e404 = js ''Request failed with status code 404''"
    by (simp_all add: nullish_def property_def)
  have h2: "response network_error = None" "request network_error"
    by (simp_all add: network_error_def)
  have h3: "response setup_error = None" "\<not> request setup_error"
    "message setup_error = js ''Invalid URL''"
    by (simp_all add: setup_error_def)
  have h4: "\<not> accepted sample_engine (Resolved ?b)"
    by (simp add: accepted_def property_def js_def unit_def)
  have m4: "thrown_message sample_engine ?b = js ''Error: model unavailable''"
    by (simp add: thrown_message_def property_def nullish_def js_def unit_def)
  note t1 = error_message_priority [where post = "failing http_500" and E = sample_engine
      and s = initial_store and result = "Rejected http_500" and e = http_500 and data = ?d
      and t = "js ''Analysis failed''", OF p]
  note t1' = error_message_priority [where post = "failing ?e404" and E = sample_engine
      and s = initial_store and result = "Rejected ?e404" and e = ?e404 and data = "Obj []", OF p]
  note t2 = error_message_priority [where post = "failing network_error" and E = sample_engine
      and s = initial_store and result = "Rejected network_error" and e = network_error, OF p]
  note t3 = error_message_priority [where post = "failing setup_error" and E = sample_engine
      and s = initial_store and result = "Rejected setup_error" and e = setup_error, OF p]
  note t4 = error_message_priority [where post = "replies ?b" and E = sample_engine
      and s = initial_store and result = "Resolved ?b" and body = ?b, OF q]
  from t1 h1 have c1: "apiError (fetchAnalysis sample_engine (failing http_500) initial_store)
       = Some (js ''Server Error: '' @ js ''Analysis failed'')" by blast
  from t1' h1' have c1': "apiError (fetchAnalysis sample_engine (failing ?e404) initial_store)
       = Some (js ''Server Error: '' @ js ''Request failed with status code 404'')" by simp
  from t2 h2 have "apiError (fetchAnalysis sample_engine (failing network_error) initial_store)
       = Some (js ''Connection Error: Is the Python server running at '' @ API_BASE_URL sample_engine
               @ js ''?'')" by blast
  then have c2: "apiError (fetchAnalysis sample_engine (failing network_error) initial_store)
       = Some (js ''Connection Error: Is the Python server running at http://127.0.0.1:8000?'')"
    by (simp only: sample_base_url connection_message)
  from t3 h3 have c3: "apiError (fetchAnalysis sample_engine (failing setup_error) initial_store)
       = Some (js ''Invalid URL'')" by simp
  from t4 h4 m4 have c4: "apiError (fetchAnalysis sample_engine (replies ?b) initial_store)
       = Some (js ''Error: model unavailable'')" by simp
  from h1(1,2,3) h1'(3) h2 h3(1,2) h4 c1 c1' c2 c3 c4 show ?thesis by blast
qed

text \<open>
  The specification has the generic message in the last case. An error with neither
  response nor request does not give \<^verbatim>\<open>Failed to fetch analysis.\<close>
\<close>

theorem generic_message_counterexample:
  "apiError (fetchAnalysis sample_engine (replies (Obj [(js ''analysis'', Str [])])) initial_store)
     = Some (js ''Empty response from AI'')
   \<and> apiError (fetchAnalysis sample_engine (replies (Obj [(js ''analysis'', Str [])])) initial_store)
       \<noteq> Some (js ''Failed to fetch analysis.'')
   \<and> apiError (fetchAnalysis sample_engine (failing setup_error) initial_store)
       \<noteq> Some (js ''Failed to fetch analysis.'')"
  by (simp add: fetchAnalysis_def fetchAnalysis_resolve_def replies_def failing_def
      settle_Resolved_refused settle_Rejected accepted_def thrown_message_def property_def
      nullish_def setup_error_def js_def unit_def)

lemma settle_not_accepted_cases:
  assumes "\<not> accepted E r"
  shows "settle E r = Unhandled \<and> catch_throws E r
       \<or> (\<exists>m. settle E r = Failed m) \<and> \<not> catch_throws E r"
proof (cases "catch_throws E r")
  case True
  then show ?thesis by (simp add: settle_catch_throws)
next
  case False
  with settle_refused [OF assms False] show ?thesis by simp
qed

lemma resolve_not_accepted_frame:
  assumes "\<not> accepted E r"
  shows "analysisResults (fetchAnalysis_resolve E r t) = analysisResults t
       \<and> userInput (fetchAnalysis_resolve E r t) = userInput t"
  using settle_not_accepted_cases [OF assms]
  by (auto simp: fetchAnalysis_resolve_def)

text \<open>
  \<^bold>\<open>C8\<close>. A submit that does not succeed leaves the stored result and the input profile
  exactly as they were before the submit. When it resolves in the error state (the \<^verbatim>\<open>catch\<close>
  block reaches its \<^verbatim>\<open>set\<close>), the state after it is the state before it with \<^verbatim>\<open>isLoading\<close>
  false and a message in \<^verbatim>\<open>apiError\<close>, and nothing else changed. The resolution alone, in
  whatever state it is applied, leaves result and profile as they are, too.
\<close>

theorem failed_submit_frame:
  assumes "post (API_BASE_URL E @ js ''/api/analyze'') (userInput s) = result"
    and "\<not> accepted E result"
  shows "analysisResults (fetchAnalysis E post s) = analysisResults s
    \<and> userInput (fetchAnalysis E post s) = userInput s
    \<and> (\<not> catch_throws E result \<longrightarrow>
         (\<exists>m. fetchAnalysis E post s = s\<lparr>isLoading := False, apiError := Some m\<rparr>))
    \<and> analysisResults (fetchAnalysis_resolve E result t) = analysisResults t
    \<and> userInput (fetchAnalysis_resolve E result t) = userInput t"
proof -
  note f = fetchAnalysis_settle [of post E s result, OF assms(1)]
  have "fetchAnalysis E post s = fetchAnalysis_resolve E result (fetchAnalysis_begin s)"
    using f by (simp add: fetchAnalysis_resolve_def)
  with resolve_not_accepted_frame [OF assms(2), of "fetchAnalysis_begin s"]
  have frame: "analysisResults (fetchAnalysis E post s) = analysisResults s"
    "userInput (fetchAnalysis E post s) = userInput s"
    by (simp_all add: fetchAnalysis_begin_def)
  have err: "\<exists>m. fetchAnalysis E post s = s\<lparr>isLoading := False, apiError := Some m\<rparr>"
    if "\<not> catch_throws E result"
  proof -
    from settle_refused [OF assms(2) that] obtain m where "settle E result = Failed m" ..
    with f show ?thesis by (intro exI [of _ m]) (simp add: fetchAnalysis_begin_def)
  qed
  from frame err resolve_not_accepted_frame [OF assms(2), of t] show ?thesis by blast
qed

theorem failed_submit_frame_witness:
  "\<not> accepted sample_engine (Rejected network_error)
   \<and> \<not> catch_throws sample_engine (Rejected network_error)
   \<and> analysisResults (fetchAnalysis sample_engine offline initial_store) = analysisResults initial_store
   \<and> userInput (fetchAnalysis sample_engine offline initial_store) = userInput initial_store
   \<and> (\<exists>m. fetchAnalysis sample_engine offline initial_store =
          initial_store\<lparr>isLoading := False, apiError := Some m\<rparr>)"
proof -
  have a: "offline (API_BASE_URL sample_engine @ js ''/api/analyze'') (userInput initial_store)
             = Rejected network_error"
    by (simp add: offline_def)
  note n = offline_refused(1) [of sample_engine]
  from failed_submit_frame [of offline sample_engine initial_store, OF a n] n
    offline_refused(2) [of sample_engine]
  show ?thesis by blast
qed


section \<open>Facts about sessions\<close>

lemma analysisResults_resolve:
  "analysisResults (fetchAnalysis_resolve E result s) =
     (if accepted E result then parsed_payload E result else analysisResults s)"
proof (cases "accepted E result")
  case True
  then show ?thesis by (simp add: fetchAnalysis_resolve_def settle_accepted)
next
  case False
  then show ?thesis using resolve_not_accepted_frame [OF False, of s] by simp
qed

lemma analysisResults_step:
  "analysisResults (step E s ev) =
     (case ev of
        Settle result \<Rightarrow> if accepted E result then parsed_payload E result else analysisResults s
      | _ \<Rightarrow> analysisResults s)"
  by (cases ev) (simp_all add: setInput_def fetchAnalysis_begin_def analysisResults_resolve)

lemma analysisResults_run:
  "analysisResults (run E s evs) = latest_result E (analysisResults s) evs"
  unfolding run_def
proof (induction evs arbitrary: s)
  case Nil
  show ?case by simp
next
  case (Cons ev evs)
  show ?case
    by (cases ev) (simp_all add: Cons.IH setInput_def fetchAnalysis_begin_def analysisResults_resolve)
qed

lemma mockData_not_null: "mockData \<noteq> Null" "\<not> nullish mockData"
  by (simp_all add: mockData_def nullish_def)

text \<open>
  \<^bold>\<open>C4\<close>, as the code has it. The result field is not confined to the success state and is never
  cleared: it holds the mock data in the initial state, and after any sequence of edits,
  submissions and resolutions it holds the payload of the most recent successful
  resolution, or the mock data if there was none. Only a successful resolution stores a new
  value, replacing the previous one; every other event leaves the result as it was.
\<close>

theorem result_replaced_only_on_success:
  "analysisResults initial_store = mockData
   \<and> analysisResults (step E s ev) =
       (case ev of
          Settle result \<Rightarrow> if accepted E result then parsed_payload E result else analysisResults s
        | _ \<Rightarrow> analysisResults s)
   \<and> analysisResults (run E initial_store evs) = latest_result E mockData evs"
  using analysisResults_run [of E initial_store evs]
  by (simp add: analysisResults_step) (simp add: initial_store_def)

text \<open>
  The specification has the result null outside the success state. It is not null before
  any submission, while loading, or after a failed submission.
\<close>

theorem result_not_null_counterexample:
  "DashboardDisplay initial_store = Dashboard mockData
   \<and> analysisResults initial_store \<noteq> Null
   \<and> DashboardDisplay (run sample_engine initial_store [Submit]) = Spinner
   \<and> analysisResults (run sample_engine initial_store [Submit]) \<noteq> Null
   \<and> DashboardDisplay (run sample_engine initial_store [Submit, Settle (Rejected network_error)])
       = ErrorPanel (js ''Connection Error: Is the Python server running at http://127.0.0.1:8000?'')
   \<and> analysisResults (run sample_engine initial_store [Submit, Settle (Rejected network_error)])
       \<noteq> Null"
  by (simp add: run_def fetchAnalysis_begin_def fetchAnalysis_resolve_def offline_settles
      non_empty_messages DashboardDisplay_def initial_store_def mockData_not_null)

lemma run_two: "run E s [Settle a, Settle b] = fetchAnalysis_resolve E b (fetchAnalysis_resolve E a s)"
  by (simp add: run_def)

text \<open>
  \<^bold>\<open>C9\<close>, as the code has it. Each resolution is one update of the store and none is
  discarded: two resolutions are applied one after the other, in the order they arrive. An
  update overwrites only the fields it writes (a success the result and \<^verbatim>\<open>isLoading\<close>, a
  failure \<^verbatim>\<open>apiError\<close> and \<^verbatim>\<open>isLoading\<close>). When both resolutions succeed, or both fail with
  their \<^verbatim>\<open>catch\<close> blocks completing, the final state is the one the last resolution alone
  produces. When one succeeds and one fails with its \<^verbatim>\<open>catch\<close> block completing, in either
  order, the final state holds the result of the one that succeeded and the message of the
  one that failed.
\<close>

theorem overlapping_resolutions:
  "run E s [Settle a, Settle b] = fetchAnalysis_resolve E b (fetchAnalysis_resolve E a s)
   \<and> (accepted E a \<and> accepted E b \<longrightarrow> run E s [Settle a, Settle b] = run E s [Settle b])
   \<and> (\<not> accepted E a \<and> \<not> catch_throws E a \<and> \<not> accepted E b \<and> \<not> catch_throws E b \<longrightarrow>
        run E s [Settle a, Settle b] = run E s [Settle b])
   \<and> (accepted E a \<and> \<not> accepted E b \<and> \<not> catch_throws E b \<longrightarrow>
        (\<exists>m. run E s [Settle b] = s\<lparr>isLoading := False, apiError := Some m\<rparr>
           \<and> run E s [Settle a, Settle b] =
               s\<lparr>isLoading := False, apiError := Some m, analysisResults := parsed_payload E a\<rparr>
           \<and> run E s [Settle b, Settle a] =
               s\<lparr>isLoading := False, apiError := Some m, analysisResults := parsed_payload E a\<rparr>))"
proof -
  have both_ok: "run E s [Settle a, Settle b] = run E s [Settle b]"
    if "accepted E a" "accepted E b"
    using settle_accepted [OF that(1)] settle_accepted [OF that(2)]
    by (simp add: run_def fetchAnalysis_resolve_def)
  have both_bad: "run E s [Settle a, Settle b] = run E s [Settle b]"
    if "\<not> accepted E a" "\<not> catch_throws E a" "\<not> accepted E b" "\<not> catch_throws E b"
  proof -
    from settle_refused [OF that(1,2)] obtain ma where "settle E a = Failed ma" ..
    moreover from settle_refused [OF that(3,4)] obtain mb where "settle E b = Failed mb" ..
    ultimately show ?thesis by (simp add: run_def fetchAnalysis_resolve_def)
  qed
  have mixed: "\<exists>m. run E s [Settle b] = s\<lparr>isLoading := False, apiError := Some m\<rparr>
           \<and> run E s [Settle a, Settle b] =
               s\<lparr>isLoading := False, apiError := Some m, analysisResults := parsed_payload E a\<rparr>
           \<and> run E s [Settle b, Settle a] =
               s\<lparr>isLoading := False, apiError := Some m, analysisResults := parsed_payload E a\<rparr>"
    if "accepted E a" "\<not> accepted E b" "\<not> catch_throws E b"
  proof -
    from settle_refused [OF that(2,3)] obtain m where "settle E b = Failed m" ..
    with settle_accepted [OF that(1)] show ?thesis
      by (intro exI [of _ m]) (simp add: run_def fetchAnalysis_resolve_def)
  qed
  from run_two both_ok both_bad mixed show ?thesis by blast
qed

theorem overlapping_resolutions_witness:
  "accepted sample_engine (Resolved (Obj [(js ''analysis'', Str (js ''{}''))]))
   \<and> accepted sample_engine (Resolved (Obj [(js ''analysis'', Str (js ''[]''))]))
   \<and> \<not> accepted sample_engine (Rejected network_error)
   \<and> \<not> catch_throws sample_engine (Rejected network_error)
   \<and> \<not> accepted sample_engine (Rejected setup_error)
   \<and> \<not> catch_throws sample_engine (Rejected setup_error)
   \<and> run sample_engine initial_store
        [Settle (Resolved (Obj [(js ''analysis'', Str (js ''{}''))])),
         Settle (Resolved (Obj [(js ''analysis'', Str (js ''[]''))]))]
       = run sample_engine initial_store [Settle (Resolved (Obj [(js ''analysis'', Str (js ''[]''))]))]
   \<and> run sample_engine initial_store [Settle (Rejected network_error), Settle (Rejected setup_error)]
       = run sample_engine initial_store [Settle (Rejected setup_error)]
   \<and> run sample_engine initial_store
        [Settle (Resolved (Obj [(js ''analysis'', Str (js ''{}''))])), Settle (Rejected setup_error)]
       = run sample_engine initial_store
        [Settle (Rejected setup_error), Settle (Resolved (Obj [(js ''analysis'', Str (js ''{}''))]))]
   \<and> apiError (run sample_engine initial_store
        [Settle (Rejected setup_error), Settle (Resolved (Obj [(js ''analysis'', Str (js ''{}''))]))])
       = Some (js ''Invalid URL'')"
proof -
  let ?a = "Resolved (Obj [(js ''analysis'', Str (js ''{}''))])"
  let ?b = "Resolved (Obj [(js ''analysis'', Str (js ''[]''))])"
  let ?c = "Rejected network_error"
  let ?d = "Rejected setup_error"
  have a: "accepted sample_engine ?a" by (rule sample_accepts_empty_object(1))
  have b: "accepted sample_engine ?b" by (rule sample_accepts_empty_object(5))
  have c: "\<not> accepted sample_engine ?c" "\<not> catch_throws sample_engine ?c"
    by (rule offline_refused(1), rule offline_refused(2))
  have d: "\<not> accepted sample_engine ?d" "\<not> catch_throws sample_engine ?d"
    by (rule setup_refused(1), rule setup_refused(2))
  have e: "apiError (run sample_engine initial_store [Settle ?d]) = Some (js ''Invalid URL'')"
    by (simp add: run_def fetchAnalysis_resolve_def setup_refused(3))
  note t1 = overlapping_resolutions [where E = sample_engine and s = initial_store and a = ?a and b = ?b]
  note t2 = overlapping_resolutions [where E = sample_engine and s = initial_store and a = ?c and b = ?d]
  note t3 = overlapping_resolutions [where E = sample_engine and s = initial_store and a = ?a and b = ?d]
  from t1 a b have r1: "run sample_engine initial_store [Settle ?a, Settle ?b]
       = run sample_engine initial_store [Settle ?b]" by blast
  from t2 c d have r2: "run sample_engine initial_store [Settle ?c, Settle ?d]
       = run sample_engine initial_store [Settle ?d]" by blast
  from t3 a d obtain m where
    m: "run sample_engine initial_store [Settle ?d] = initial_store\<lparr>isLoading := False, apiError := Some m\<rparr>"
    and ab: "run sample_engine initial_store [Settle ?a, Settle ?d] =
       initial_store\<lparr>isLoading := False, apiError := Some m,
         analysisResults := parsed_payload sample_engine ?a\<rparr>"
    and ba: "run sample_engine initial_store [Settle ?d, Settle ?a] =
       initial_store\<lparr>isLoading := False, apiError := Some m,
         analysisResults := parsed_payload sample_engine ?a\<rparr>"
    by blast
  from m e have "m = js ''Invalid URL''" by simp
  with ab ba have r3: "run sample_engine initial_store [Settle ?a, Settle ?d]
       = run sample_engine initial_store [Settle ?d, Settle ?a]"
    and r4: "apiError (run sample_engine initial_store [Settle ?d, Settle ?a]) = Some (js ''Invalid URL'')"
    by simp_all
  from a b c d r1 r2 r3 r4 show ?thesis by blast
qed

text \<open>
  The specification has the last resolution alone decide the final state. When the first
  of two overlapping submissions fails and the second then succeeds, the final state is not
  the one the last resolution produces alone; the error of the first remains and is what is
  shown.
\<close>

theorem stale_error_counterexample:
  "apiError (run sample_engine initial_store
      [Submit, Submit, Settle (Rejected network_error),
       Settle (Resolved (Obj [(js ''analysis'', Str (js ''{}''))]))])
     = Some (js ''Connection Error: Is the Python server running at http://127.0.0.1:8000?'')
   \<and> apiError (run sample_engine initial_store
        [Submit, Submit, Settle (Resolved (Obj [(js ''analysis'', Str (js ''{}''))]))]) = None
   \<and> DashboardDisplay (run sample_engine initial_store
        [Submit, Submit, Settle (Rejected network_error),
         Settle (Resolved (Obj [(js ''analysis'', Str (js ''{}''))]))])
       = ErrorPanel (js ''Connection Error: Is the Python server running at http://127.0.0.1:8000?'')
   \<and> DashboardDisplay (run sample_engine initial_store
        [Submit, Submit, Settle (Resolved (Obj [(js ''analysis'', Str (js ''{}''))]))])
       = Dashboard (Obj [])"
  by (simp add: run_def fetchAnalysis_begin_def fetchAnalysis_resolve_def offline_settles
      non_empty_messages settle_accepted sample_accepts_empty_object DashboardDisplay_def
      nullish_def)

text \<open>
  A failure whose \<^verbatim>\<open>catch\<close> block throws writes nothing: after an earlier failure, the
  earlier failure's state stays.
\<close>

lemma unhandled_resolution_writes_nothing:
  "run E s [Settle a, Settle (Rejected http_500_odd_detail)] = run E s [Settle a]"
  by (simp add: run_def fetchAnalysis_resolve_def settle_catch_throws [OF odd_detail_throws])

end
